theory Spec2Isabelle
  imports Main "HOL-Library.AList"
begin

section \<open>JavaScript values\<close>

text \<open>
  The values the client manipulates. Numbers are restricted to integers; functions are
  not values of the model. An object is its list of own enumerable properties in
  insertion order.
\<close>

datatype jsval =
    JUndefined
  | JNull
  | JBool bool
  | JNum int
  | JStr string
  | JArr "jsval list"
  | JObj "(string \<times> jsval) list"

type_synonym obj = "(string \<times> jsval) list"

text \<open>A thrown value: an \<open>Error\<close> with its name and its message.\<close>

datatype error = Error (ename: string) (message: string)

text \<open>Truthiness, as \<open>!x\<close>, \<open>x && y\<close> and \<open>x || y\<close> test it.\<close>

fun truthy :: "jsval \<Rightarrow> bool" where
  "truthy JUndefined = False"
| "truthy JNull = False"
| "truthy (JBool b) = b"
| "truthy (JNum n) = (n \<noteq> 0)"
| "truthy (JStr s) = (s \<noteq> [])"
| "truthy (JArr xs) = True"
| "truthy (JObj kvs) = True"

text \<open>\<open>Array.isArray\<close>.\<close>

fun isArray :: "jsval \<Rightarrow> bool" where
  "isArray (JArr xs) = True"
| "isArray v = False"

text \<open>The decimal rendering of a natural number (array indices as keys, status codes).\<close>

fun digits :: "nat \<Rightarrow> string" where
  "digits n =
     (if n < 10 then [char_of (48 + n)]
      else digits (n div 10) @ [char_of (48 + n mod 10)])"

declare digits.simps [simp del]

text \<open>
  The own enumerable properties an object spread \<open>{...v}\<close> copies: those of an object,
  the indexed elements of an array or a string, nothing for the other values.
\<close>

fun spread :: "jsval \<Rightarrow> obj" where
  "spread (JObj kvs) = kvs"
| "spread (JArr xs) = zip (map digits [0..<length xs]) xs"
| "spread (JStr s) = zip (map digits [0..<length s]) (map (\<lambda>c. JStr [c]) s)"
| "spread v = []"

text \<open>
  The read \<open>v.k\<close> of an own enumerable property of a value that is neither
  \<open>undefined\<close> nor \<open>null\<close>: \<open>undefined\<close> when the property is absent. Inherited
  properties (\<open>length\<close>, methods) are outside the model; the program reads none of
  them through this function.
\<close>

definition field :: "jsval \<Rightarrow> string \<Rightarrow> jsval" where
  "field v k = (case map_of (spread v) k of None \<Rightarrow> JUndefined | Some x \<Rightarrow> x)"

text \<open>The read \<open>v.k\<close> in general: a TypeError on \<open>undefined\<close> and \<open>null\<close>.\<close>

definition get_prop :: "jsval \<Rightarrow> string \<Rightarrow> error + jsval" where
  "get_prop v k =
     (if v = JUndefined \<or> v = JNull
      then Inl (Error ''TypeError''
             (''Cannot read properties of '' @ (if v = JNull then ''null'' else ''undefined'')
                @ '' (reading '' @ k @ '')''))
      else Inr (field v k))"

text \<open>The guarded read \<open>v && v.k\<close>: the property of a truthy value, else the value itself.\<close>

definition guarded :: "jsval \<Rightarrow> string \<Rightarrow> jsval" where
  "guarded v k = (if truthy v then field v k else v)"

text \<open>A default parameter \<open>(v = d) => ...\<close>: the default replaces \<open>undefined\<close> only.\<close>

definition default_param :: "jsval \<Rightarrow> jsval \<Rightarrow> jsval" where
  "default_param d v = (if v = JUndefined then d else v)"

section \<open>Action vocabulary\<close>

text \<open>
  Modelled from the spec: the module constants/index.js is not among the sources. The
  fifteen identifiers of the spec, with the values its test constants/index.test.js
  asserts.
\<close>

definition SET_ACCESS_ID :: string where "SET_ACCESS_ID = ''SET_ACCESS_ID''"
definition SET_USERNAME :: string where "SET_USERNAME = ''SET_USERNAME''"
definition SET_PASSWORD :: string where "SET_PASSWORD = ''SET_PASSWORD''"
definition LOGIN_SUCCESS :: string where "LOGIN_SUCCESS = ''LOGIN''"
definition SET_LISTS :: string where "SET_LISTS = ''SET_LISTS''"
definition SWITCH_SHOW_ADD_LIST_FORM :: string where
  "SWITCH_SHOW_ADD_LIST_FORM = ''SWITCH_SHOW_ADD_LIST_FORM''"
definition SET_CREATE_LIST_NAME :: string where "SET_CREATE_LIST_NAME = ''SET_CREATE_LIST_NAME''"
definition SET_CREATE_LIST_DESCRIPTION :: string where
  "SET_CREATE_LIST_DESCRIPTION = ''SET_CREATE_LIST_DESCRIPTION''"
definition SET_TASKS :: string where "SET_TASKS = ''SET_TASKS''"
definition SET_TASKS_LIST_NAME :: string where "SET_TASKS_LIST_NAME = ''SET_TASKS_LIST_NAME''"
definition SET_TASKS_LIST_ID :: string where "SET_TASKS_LIST_ID = ''SET_TASKS_LIST_ID''"
definition SWITCH_SHOW_ADD_TASK_FORM :: string where
  "SWITCH_SHOW_ADD_TASK_FORM = ''SWITCH_SHOW_ADD_TASK_FORM''"
definition SET_CREATE_TASK_NAME :: string where "SET_CREATE_TASK_NAME = ''SET_CREATE_TASK_NAME''"
definition SET_CREATE_TASK_DESCRIPTION :: string where
  "SET_CREATE_TASK_DESCRIPTION = ''SET_CREATE_TASK_DESCRIPTION''"
definition SWITCH_SET_TASK_IS_DONE :: string where
  "SWITCH_SET_TASK_IS_DONE = ''SWITCH_SET_TASK_IS_DONE''"

lemmas constants_defs =
  SET_ACCESS_ID_def SET_USERNAME_def SET_PASSWORD_def LOGIN_SUCCESS_def
  SET_LISTS_def SWITCH_SHOW_ADD_LIST_FORM_def SET_CREATE_LIST_NAME_def
  SET_CREATE_LIST_DESCRIPTION_def SET_TASKS_def SET_TASKS_LIST_NAME_def
  SET_TASKS_LIST_ID_def SWITCH_SHOW_ADD_TASK_FORM_def SET_CREATE_TASK_NAME_def
  SET_CREATE_TASK_DESCRIPTION_def SWITCH_SET_TASK_IS_DONE_def

section \<open>Actions\<close>

text \<open>
  What a reducer reads of the action object it is given: \<open>action.type\<close> and
  \<open>action.payload\<close>, each \<open>undefined\<close> when the object lacks it.
\<close>

record action =
  atype :: jsval
  payload :: jsval

subsection \<open>actions/loginAction.js\<close>

text \<open>The constructors return object literals; \<open>loginFailed\<close> has an empty body.\<close>

definition setAccessId :: "jsval \<Rightarrow> jsval" where
  "setAccessId accessId = JObj [(''type'', JStr SET_ACCESS_ID), (''payload'', accessId)]"

definition setUsername :: "jsval \<Rightarrow> jsval" where
  "setUsername username = JObj [(''type'', JStr SET_USERNAME), (''payload'', username)]"

definition setPassword :: "jsval \<Rightarrow> jsval" where
  "setPassword password = JObj [(''type'', JStr SET_PASSWORD), (''payload'', password)]"

definition loginSuccess :: "jsval \<Rightarrow> jsval \<Rightarrow> jsval" where
  "loginSuccess username accessId =
     JObj [(''type'', JStr LOGIN_SUCCESS),
           (''payload'', JObj [(''username'', username), (''accessId'', accessId)])]"

definition loginFailed :: jsval where
  "loginFailed = JUndefined"

section \<open>Slice reducers\<close>

subsection \<open>reducers/loginReducer.js\<close>

definition login_initialState :: jsval where
  "login_initialState = JObj [(''accessId'', JUndefined)]"

definition loginReducer :: "jsval \<Rightarrow> action \<Rightarrow> error + jsval" where
  "loginReducer state0 action =
     (let state = default_param login_initialState state0 in
      if atype action = JStr SET_ACCESS_ID then
        Inr (JObj (AList.update ''accessId'' (payload action) (spread state)))
      else if atype action = JStr SET_USERNAME then
        Inr (JObj (AList.update ''username'' (payload action) (spread state)))
      else if atype action = JStr SET_PASSWORD then
        Inr (JObj (AList.update ''password'' (payload action) (spread state)))
      else if atype action = JStr LOGIN_SUCCESS then
        (case get_prop (payload action) ''accessId'' of
           Inl e \<Rightarrow> Inl e
         | Inr accessId \<Rightarrow>
             (case get_prop (payload action) ''username'' of
                Inl e \<Rightarrow> Inl e
              | Inr username \<Rightarrow>
                  Inr (JObj (AList.update ''username'' username
                              (AList.update ''accessId'' accessId (spread state))))))
      else Inr state)"

subsection \<open>reducers/listReducer.js\<close>

definition list_initialState :: jsval where
  "list_initialState =
     JObj [(''list'', JArr []), (''showAddList'', JBool False),
           (''name'', JStr ''''), (''description'', JStr '''')]"

definition listReducer :: "jsval \<Rightarrow> action \<Rightarrow> jsval" where
  "listReducer state0 action =
     (let state = default_param list_initialState state0 in
      if atype action = JStr SET_LISTS then
        JObj (AList.update ''list''
               (if isArray (payload action) then payload action else JArr []) (spread state))
      else if atype action = JStr SWITCH_SHOW_ADD_LIST_FORM then
        JObj (AList.update ''showAddList'' (payload action) (spread state))
      else if atype action = JStr SET_CREATE_LIST_NAME then
        JObj (AList.update ''name'' (payload action) (spread state))
      else if atype action = JStr SET_CREATE_LIST_DESCRIPTION then
        JObj (AList.update ''description'' (payload action) (spread state))
      else state)"

subsection \<open>reducers/taskReducer.js\<close>

definition task_initialState :: jsval where
  "task_initialState =
     JObj [(''tasks'', JArr []), (''showAddTaskForm'', JBool False),
           (''name'', JStr ''''), (''description'', JStr ''''),
           (''taskListName'', JStr ''''), (''taskListId'', JStr '''')]"

definition taskReducer :: "jsval \<Rightarrow> action \<Rightarrow> jsval" where
  "taskReducer state0 action =
     (let state = default_param task_initialState state0 in
      if atype action = JStr SET_TASKS then
        JObj (AList.update ''tasks''
               (if isArray (payload action) then payload action else JArr []) (spread state))
      else if atype action = JStr SET_TASKS_LIST_NAME then
        JObj (AList.update ''taskListName'' (payload action) (spread state))
      else if atype action = JStr SET_TASKS_LIST_ID then
        JObj (AList.update ''taskListId'' (payload action) (spread state))
      else if atype action = JStr SWITCH_SHOW_ADD_TASK_FORM then
        JObj (AList.update ''showAddTaskForm'' (payload action) (spread state))
      else if atype action = JStr SWITCH_SET_TASK_IS_DONE then
        JObj (AList.update ''isDone'' (payload action) (spread state))
      else if atype action = JStr SET_CREATE_TASK_NAME then
        JObj (AList.update ''name'' (payload action) (spread state))
      else if atype action = JStr SET_CREATE_TASK_DESCRIPTION then
        JObj (AList.update ''description'' (payload action) (spread state))
      else state)"

text \<open>The action types each reducer has a case for.\<close>

definition login_types :: "jsval list" where
  "login_types = [JStr SET_ACCESS_ID, JStr SET_USERNAME, JStr SET_PASSWORD, JStr LOGIN_SUCCESS]"

definition list_types :: "jsval list" where
  "list_types =
     [JStr SET_LISTS, JStr SWITCH_SHOW_ADD_LIST_FORM, JStr SET_CREATE_LIST_NAME,
      JStr SET_CREATE_LIST_DESCRIPTION]"

definition task_types :: "jsval list" where
  "task_types =
     [JStr SET_TASKS, JStr SET_TASKS_LIST_NAME, JStr SET_TASKS_LIST_ID,
      JStr SWITCH_SHOW_ADD_TASK_FORM, JStr SWITCH_SET_TASK_IS_DONE, JStr SET_CREATE_TASK_NAME,
      JStr SET_CREATE_TASK_DESCRIPTION]"

section \<open>Store composition\<close>

type_synonym reducer = "jsval \<Rightarrow> action \<Rightarrow> error + jsval"

text \<open>
  Redux's \<open>combineReducers\<close>: every slice reducer is run, in key order, on its slice
  \<open>state[key]\<close> of the tree and on the same action, and the results are assembled under
  the same keys; the tree defaults to the empty object. A slice reducer that throws ends
  the run.
\<close>

fun combine :: "(string \<times> reducer) list \<Rightarrow> jsval \<Rightarrow> action \<Rightarrow> error + obj" where
  "combine [] state action = Inr []"
| "combine ((key, r) # rs) state action =
     (case r (field state key) action of
        Inl e \<Rightarrow> Inl e
      | Inr v \<Rightarrow>
          (case combine rs state action of
             Inl e \<Rightarrow> Inl e
           | Inr kvs \<Rightarrow> Inr ((key, v) # kvs)))"

definition combineReducers :: "(string \<times> reducer) list \<Rightarrow> reducer" where
  "combineReducers reducers state0 action =
     (let state = default_param (JObj []) state0 in
      case combine reducers state action of
        Inl e \<Rightarrow> Inl e
      | Inr kvs \<Rightarrow> Inr (JObj kvs))"

text \<open>
  Redux's \<open>createStore\<close>: the store's first state is the reducer's answer to the
  \<open>undefined\<close> state and an initialisation action of a type no reducer has a case for.
  A store is represented by its current state; \<open>getState\<close> reads it.
\<close>

definition INIT :: action where
  "INIT = \<lparr>atype = JStr ''@@redux/INIT'', payload = JUndefined\<rparr>"

definition createStore :: "reducer \<Rightarrow> error + jsval" where
  "createStore r = r JUndefined INIT"

text \<open>
  Redux's \<open>dispatch\<close>: an action that is not a plain object, or whose \<open>type\<close> is
  \<open>undefined\<close>, is refused with an exception; any other is given to the reducer, whose
  answer is the next state.
\<close>

definition dispatch :: "reducer \<Rightarrow> jsval \<Rightarrow> jsval \<Rightarrow> error + jsval" where
  "dispatch r act state =
     (case act of
        JObj kvs \<Rightarrow>
          (if field act ''type'' = JUndefined
           then Inl (Error ''Error'' ''Actions may not have an undefined type property.'')
           else r state \<lparr>atype = field act ''type'', payload = field act ''payload''\<rparr>)
      | _ \<Rightarrow> Inl (Error ''Error'' ''Actions must be plain objects.''))"

subsection \<open>store/configureStore.js\<close>

definition rootReducer :: reducer where
  "rootReducer = combineReducers [(''login'', loginReducer)]"

definition configureStore :: "error + jsval" where
  "configureStore = createStore rootReducer"

subsection \<open>The root reducer of components/App/App.test.js\<close>

definition App_test_rootReducer :: reducer where
  "App_test_rootReducer =
     combineReducers
       [(''login'', loginReducer),
        (''lists'', \<lambda>state action. Inr (listReducer state action)),
        (''tasks'', \<lambda>state action. Inr (taskReducer state action))]"

section \<open>The routing gate: components/App/App.js\<close>

datatype view = LoginView | RoutedViews

text \<open>\<open>mapStateToProps\<close> spreads the state tree into the props.\<close>

definition mapStateToProps :: "jsval \<Rightarrow> jsval" where
  "mapStateToProps state = JObj (spread state)"

definition App_render :: "jsval \<Rightarrow> error + view" where
  "App_render props =
     (case get_prop (field props ''login'') ''accessId'' of
        Inl e \<Rightarrow> Inl e
      | Inr accessId \<Rightarrow> if accessId = JUndefined then Inr LoginView else Inr RoutedViews)"

section \<open>Request and response orchestration\<close>

subsection \<open>The network, the component and the store as one state\<close>

record request =
  path :: string
  body :: obj

text \<open>
  A response: \<open>resp.ok\<close>, \<open>resp.status\<close>, the body as \<open>resp.text()\<close> gives it and as
  \<open>resp.json()\<close> gives it: the parsed value, or the error the parse rejects with when
  the body is not JSON.
\<close>

record response =
  ok :: bool
  status :: nat
  resp_text :: string
  resp_json :: "error + jsval"

datatype outcome = Rejected error | Responded response

text \<open>The backend: the outcome of the n-th request issued, given the request.\<close>

type_synonym network = "nat \<Rightarrow> request \<Rightarrow> outcome"

text \<open>
  The state an operation runs in: the store's state tree (the component's props mirror
  it), the component's \<open>toast\<close> and \<open>lastError\<close>, and the log of the requests issued so
  far, oldest first. An operation runs alone from its call to its end; every request
  settles; the toast's dismissal timer is not part of the model.
\<close>

record world =
  store :: jsval
  toast :: "(string \<times> string) option"
  lastError :: "string option"
  requests :: "request list"

text \<open>A step either throws or returns, and leaves a state in both cases.\<close>

type_synonym 'a io = "world \<Rightarrow> (error + 'a) \<times> world"

definition io_return :: "'a \<Rightarrow> 'a io" where
  "io_return x w = (Inr x, w)"

definition io_throw :: "error \<Rightarrow> 'a io" where
  "io_throw e w = (Inl e, w)"

definition io_gets :: "(world \<Rightarrow> 'a) \<Rightarrow> 'a io" where
  "io_gets f w = (Inr (f w), w)"

definition io_bind :: "'a io \<Rightarrow> ('a \<Rightarrow> 'b io) \<Rightarrow> 'b io" where
  "io_bind m f w = (case m w of (Inl e, w') \<Rightarrow> (Inl e, w') | (Inr x, w') \<Rightarrow> f x w')"

definition io_seq :: "unit io \<Rightarrow> 'b io \<Rightarrow> 'b io" where
  "io_seq m n = io_bind m (\<lambda>_. n)"

text \<open>\<open>try { m } catch (err) { h err }\<close>.\<close>

definition io_try :: "'a io \<Rightarrow> (error \<Rightarrow> 'a io) \<Rightarrow> 'a io" where
  "io_try m h w = (case m w of (Inl e, w') \<Rightarrow> h e w' | (Inr x, w') \<Rightarrow> (Inr x, w'))"

text \<open>\<open>await fetch(url, {method: 'POST', headers, body})\<close>: the request is logged.\<close>

definition fetch :: "network \<Rightarrow> request \<Rightarrow> response io" where
  "fetch net rq w =
     (let w' = w\<lparr>requests := requests w @ [rq]\<rparr> in
      case net (length (requests w)) rq of
        Rejected e \<Rightarrow> (Inl e, w')
      | Responded resp \<Rightarrow> (Inr resp, w'))"

text \<open>\<open>await resp.json()\<close>.\<close>

definition json_body :: "response \<Rightarrow> jsval io" where
  "json_body resp =
     (case resp_json resp of
        Inl e \<Rightarrow> io_throw e
      | Inr b \<Rightarrow> io_return b)"

text \<open>The template fragments \<open>${text || resp.status}\<close> and \<open>${err.message || err}\<close>.\<close>

definition text_or_status :: "response \<Rightarrow> string" where
  "text_or_status resp = (if resp_text resp \<noteq> [] then resp_text resp else digits (status resp))"

definition err_text :: "error \<Rightarrow> string" where
  "err_text err = (if message err \<noteq> [] then message err else ename err)"

text \<open>\<open>this.setState({ lastError: v })\<close> and \<open>showToast(message, type)\<close>.\<close>

definition setLastError :: "string option \<Rightarrow> unit io" where
  "setLastError v w = (Inr (), w\<lparr>lastError := v\<rparr>)"

definition showToast :: "string \<Rightarrow> string \<Rightarrow> unit io" where
  "showToast msg ty w = (Inr (), w\<lparr>toast := Some (msg, ty)\<rparr>)"

text \<open>A prop of \<open>mapDispatchToProps\<close>: the action is dispatched to the store.\<close>

definition props_dispatch :: "reducer \<Rightarrow> jsval \<Rightarrow> unit io" where
  "props_dispatch r act w =
     (case dispatch r act (store w) of
        Inl e \<Rightarrow> (Inl e, w)
      | Inr s \<Rightarrow> (Inr (), w\<lparr>store := s\<rparr>))"

text \<open>
  \<open>String.prototype.trim\<close>. A \<open>char\<close> is a code unit below 256; the white space and
  line terminators of that range are tab, line feed, vertical tab, form feed, carriage
  return, space and the no-break space (160). Code units from 256 on are outside the
  string type of the model.
\<close>

definition is_space :: "char \<Rightarrow> bool" where
  "is_space c = (let n = (of_char c :: nat) in n = 32 \<or> n = 160 \<or> (9 \<le> n \<and> n \<le> 13))"

definition trim :: "string \<Rightarrow> string" where
  "trim s = rev (dropWhile is_space (rev (dropWhile is_space s)))"

text \<open>
  The test \<open>!name || name.trim() === ''\<close>: a truthy value that is not a string has no
  \<open>trim\<close> method, and the call throws.
\<close>

definition name_blank :: "jsval \<Rightarrow> bool io" where
  "name_blank name =
     (if \<not> truthy name then io_return True
      else case name of
             JStr s \<Rightarrow> io_return (trim s = [])
           | _ \<Rightarrow> io_throw (Error ''TypeError'' ''name.trim is not a function''))"

subsection \<open>Action constructors of the list and task slices\<close>

text \<open>
  Modelled from the spec: the modules actions/listAction.js and actions/taskAction.js are
  not among the sources. Each constructor packages its identifier and its payload into a
  \<open>{type, payload}\<close> record; the two switch constructors are called with the current
  value of the mode flag and toggle it.
\<close>

definition setLists :: "jsval \<Rightarrow> jsval" where
  "setLists lists' = JObj [(''type'', JStr SET_LISTS), (''payload'', lists')]"

definition switchShowAddListForm :: "jsval \<Rightarrow> jsval" where
  "switchShowAddListForm currentVal =
     JObj [(''type'', JStr SWITCH_SHOW_ADD_LIST_FORM), (''payload'', JBool (\<not> truthy currentVal))]"

definition setCreateListName :: "jsval \<Rightarrow> jsval" where
  "setCreateListName name = JObj [(''type'', JStr SET_CREATE_LIST_NAME), (''payload'', name)]"

definition setCreateListDescription :: "jsval \<Rightarrow> jsval" where
  "setCreateListDescription description =
     JObj [(''type'', JStr SET_CREATE_LIST_DESCRIPTION), (''payload'', description)]"

definition setTasks :: "jsval \<Rightarrow> jsval" where
  "setTasks tasks = JObj [(''type'', JStr SET_TASKS), (''payload'', tasks)]"

definition switchShowAddTaskForm :: "jsval \<Rightarrow> jsval" where
  "switchShowAddTaskForm currentVal =
     JObj [(''type'', JStr SWITCH_SHOW_ADD_TASK_FORM), (''payload'', JBool (\<not> truthy currentVal))]"

definition setCreateTaskName :: "jsval \<Rightarrow> jsval" where
  "setCreateTaskName name = JObj [(''type'', JStr SET_CREATE_TASK_NAME), (''payload'', name)]"

definition setCreateTaskDescription :: "jsval \<Rightarrow> jsval" where
  "setCreateTaskDescription description =
     JObj [(''type'', JStr SET_CREATE_TASK_DESCRIPTION), (''payload'', description)]"

subsection \<open>components/Lists/Lists.js\<close>

definition loadLists :: "reducer \<Rightarrow> network \<Rightarrow> unit io" where
  "loadLists r net =
     io_try
       (io_bind (io_gets (\<lambda>w. guarded (field (store w) ''login'') ''accessId'')) (\<lambda>accessId.
        io_bind (fetch net \<lparr>path = ''/list/list'', body = [(''access_id'', accessId)]\<rparr>) (\<lambda>resp.
        if \<not> ok resp then
          io_seq (setLastError (Some (''Load lists failed: '' @ text_or_status resp)))
                 (props_dispatch r (setLists (JArr [])))
        else
          io_bind (json_body resp) (\<lambda>body.
          props_dispatch r (setLists (if isArray body then body else JArr []))))))
       (\<lambda>err.
          io_seq (setLastError (Some (''Load lists exception: '' @ err_text err)))
                 (props_dispatch r (setLists (JArr []))))"

definition createList :: "reducer \<Rightarrow> network \<Rightarrow> unit io" where
  "createList r net =
     io_try
       (io_seq (setLastError None)
       (io_bind (io_gets (\<lambda>w. guarded (field (store w) ''login'') ''accessId'')) (\<lambda>accessId.
        io_bind (io_gets (\<lambda>w. guarded (field (store w) ''lists'') ''name'')) (\<lambda>name.
        if \<not> truthy accessId then
          setLastError (Some ''You must be logged in to create a list.'')
        else
          io_bind (name_blank name) (\<lambda>blank.
          if blank then setLastError (Some ''List name is required.'')
          else
            io_bind (io_gets (\<lambda>w.
              [(''access_id'', guarded (field (store w) ''login'') ''accessId''),
               (''name'', guarded (field (store w) ''lists'') ''name''),
               (''description'', guarded (field (store w) ''lists'') ''description''),
               (''is_done'', JBool False)])) (\<lambda>fields.
            io_bind (fetch net \<lparr>path = ''/list/create'', body = fields\<rparr>) (\<lambda>resp.
            io_seq
              (if \<not> ok resp then
                 io_seq (showToast (''Create failed: '' @ text_or_status resp) ''error'')
                        (setLastError (Some (''Create failed: '' @ text_or_status resp)))
               else
                 io_bind (json_body resp) (\<lambda>body.
                 io_seq (showToast ''List created'' ''success'') (setLastError None)))
           (io_seq (loadLists r net)
           (io_seq (props_dispatch r (setCreateListName (JStr '''')))
           (io_seq (props_dispatch r (setCreateListDescription (JStr '''')))
           (io_bind (io_gets (\<lambda>w. guarded (field (store w) ''lists'') ''showAddList''))
              (\<lambda>currentVal. props_dispatch r (switchShowAddListForm currentVal)))))))))))))
       (\<lambda>err. setLastError (Some (''Create exception: '' @ err_text err)))"

definition deleteList :: "reducer \<Rightarrow> network \<Rightarrow> jsval \<Rightarrow> unit io" where
  "deleteList r net id' =
     io_try
       (io_bind (io_gets (\<lambda>w. guarded (field (store w) ''login'') ''accessId'')) (\<lambda>accessId.
        io_bind (fetch net \<lparr>path = ''/list/delete'',
                             body = [(''access_id'', accessId), (''id'', id')]\<rparr>) (\<lambda>resp.
        io_seq
          (if \<not> ok resp then
             io_seq (showToast (''Delete failed: '' @ text_or_status resp) ''error'')
                    (setLastError (Some (''Delete failed: '' @ text_or_status resp)))
           else
             io_bind (json_body resp) (\<lambda>body.
             io_seq (showToast ''List deleted'' ''success'') (setLastError None)))
          (loadLists r net))))
       (\<lambda>err. setLastError (Some (''Delete exception: '' @ err_text err)))"

subsection \<open>components/Tasks/Tasks.js\<close>

definition loadTasks :: "reducer \<Rightarrow> network \<Rightarrow> jsval \<Rightarrow> unit io" where
  "loadTasks r net id' =
     io_try
       (io_bind (io_gets (\<lambda>w. guarded (field (store w) ''login'') ''accessId'')) (\<lambda>accessId.
        io_bind (fetch net \<lparr>path = ''/task/list'',
                             body = [(''access_id'', accessId), (''list_id'', id')]\<rparr>) (\<lambda>resp.
        if \<not> ok resp then
          io_seq (setLastError (Some (''Load tasks failed: '' @ text_or_status resp)))
                 (props_dispatch r (setTasks (JArr [])))
        else
          io_bind (json_body resp) (\<lambda>body.
          props_dispatch r (setTasks (if isArray body then body else JArr []))))))
       (\<lambda>err.
          io_seq (setLastError (Some (''Load tasks exception: '' @ err_text err)))
                 (props_dispatch r (setTasks (JArr []))))"

definition createTask :: "reducer \<Rightarrow> network \<Rightarrow> unit io" where
  "createTask r net =
     io_try
       (io_seq (setLastError None)
       (io_bind (io_gets (\<lambda>w. guarded (field (store w) ''login'') ''accessId'')) (\<lambda>accessId.
        io_bind (io_gets (\<lambda>w. guarded (field (store w) ''tasks'') ''taskListId'')) (\<lambda>listId.
        io_bind (io_gets (\<lambda>w. guarded (field (store w) ''tasks'') ''name'')) (\<lambda>name.
        if \<not> truthy accessId then
          setLastError (Some ''You must be logged in to create a task.'')
        else if \<not> truthy listId then
          setLastError (Some ''Please select a list before adding a task.'')
        else
          io_bind (name_blank name) (\<lambda>blank.
          if blank then setLastError (Some ''Task name is required.'')
          else
            io_bind (io_gets (\<lambda>w.
              [(''access_id'', guarded (field (store w) ''login'') ''accessId''),
               (''name'', guarded (field (store w) ''tasks'') ''name''),
               (''description'', guarded (field (store w) ''tasks'') ''description''),
               (''list_id'', guarded (field (store w) ''tasks'') ''taskListId''),
               (''is_done'', JBool False)])) (\<lambda>fields.
            io_bind (fetch net \<lparr>path = ''/task/create'', body = fields\<rparr>) (\<lambda>resp.
            io_seq
              (if \<not> ok resp then
                 io_seq (showToast (''Create failed: '' @ text_or_status resp) ''error'')
                        (setLastError (Some (''Create failed: '' @ text_or_status resp)))
               else
                 io_bind (json_body resp) (\<lambda>body.
                 io_seq (showToast ''Task created'' ''success'') (setLastError None)))
           (io_bind (io_gets (\<lambda>w. guarded (field (store w) ''tasks'') ''taskListId''))
              (\<lambda>listId'.
           io_seq (loadTasks r net listId')
           (io_seq (props_dispatch r (setCreateTaskName (JStr '''')))
           (io_seq (props_dispatch r (setCreateTaskDescription (JStr '''')))
           (io_bind (io_gets (\<lambda>w. guarded (field (store w) ''tasks'') ''showAddTaskForm''))
              (\<lambda>currentVal. props_dispatch r (switchShowAddTaskForm currentVal)))))))))))))))
       (\<lambda>err. setLastError (Some (''Create exception: '' @ err_text err)))"


section \<open>Vocabulary of the properties\<close>

text \<open>
  What the case of an action writes: the fields it names, each with the value it gives
  the field. An action without a case writes nothing.
\<close>

definition login_writes :: "action \<Rightarrow> (string \<times> jsval) list" where
  "login_writes a =
     (if atype a = JStr SET_ACCESS_ID then [(''accessId'', payload a)]
      else if atype a = JStr SET_USERNAME then [(''username'', payload a)]
      else if atype a = JStr SET_PASSWORD then [(''password'', payload a)]
      else if atype a = JStr LOGIN_SUCCESS then
        [(''accessId'', field (payload a) ''accessId''),
         (''username'', field (payload a) ''username'')]
      else [])"

definition list_writes :: "action \<Rightarrow> (string \<times> jsval) list" where
  "list_writes a =
     (if atype a = JStr SET_LISTS then
        [(''list'', if isArray (payload a) then payload a else JArr [])]
      else if atype a = JStr SWITCH_SHOW_ADD_LIST_FORM then [(''showAddList'', payload a)]
      else if atype a = JStr SET_CREATE_LIST_NAME then [(''name'', payload a)]
      else if atype a = JStr SET_CREATE_LIST_DESCRIPTION then [(''description'', payload a)]
      else [])"

definition task_writes :: "action \<Rightarrow> (string \<times> jsval) list" where
  "task_writes a =
     (if atype a = JStr SET_TASKS then
        [(''tasks'', if isArray (payload a) then payload a else JArr [])]
      else if atype a = JStr SET_TASKS_LIST_NAME then [(''taskListName'', payload a)]
      else if atype a = JStr SET_TASKS_LIST_ID then [(''taskListId'', payload a)]
      else if atype a = JStr SWITCH_SHOW_ADD_TASK_FORM then [(''showAddTaskForm'', payload a)]
      else if atype a = JStr SWITCH_SET_TASK_IS_DONE then [(''isDone'', payload a)]
      else if atype a = JStr SET_CREATE_TASK_NAME then [(''name'', payload a)]
      else if atype a = JStr SET_CREATE_TASK_DESCRIPTION then [(''description'', payload a)]
      else [])"

text \<open>
  The value of field \<open>k\<close> once the writes \<open>ws\<close> are applied to the state \<open>s\<close>: the value
  written when \<open>k\<close> is written, the value in \<open>s\<close> otherwise.
\<close>

definition written :: "(string \<times> jsval) list \<Rightarrow> jsval \<Rightarrow> string \<Rightarrow> jsval" where
  "written ws s k = (case map_of ws k of Some v \<Rightarrow> v | None \<Rightarrow> field s k)"

text \<open>
  A blank required field: missing (\<open>undefined\<close>, \<open>null\<close>), empty, or a string of white
  space only.
\<close>

definition is_blank :: "jsval \<Rightarrow> bool" where
  "is_blank v = (case v of JStr s \<Rightarrow> trim s = [] | JUndefined \<Rightarrow> True | JNull \<Rightarrow> True | _ \<Rightarrow> False)"

text \<open>
  A session with both create forms open and filled in, and a backend that answers
  every create request with status 500 and every other request with an empty JSON array.
\<close>

definition compose_state :: jsval where
  "compose_state =
     JObj [(''login'', JObj [(''accessId'', JStr ''tok-1''), (''username'', JStr ''alice'')]),
           (''lists'', JObj [(''list'', JArr []), (''showAddList'', JBool True),
                            (''name'', JStr ''Groceries''), (''description'', JStr ''weekly'')]),
           (''tasks'', JObj [(''tasks'', JArr []), (''showAddTaskForm'', JBool True),
                            (''name'', JStr ''Milk''), (''description'', JStr ''two litres''),
                            (''taskListName'', JStr ''Groceries''), (''taskListId'', JNum 7)])]"

definition compose_world :: world where
  "compose_world = \<lparr>store = compose_state, toast = None, lastError = None, requests = []\<rparr>"

definition create_fails :: network where
  "create_fails n rq =
     (if path rq = ''/list/create'' \<or> path rq = ''/task/create''
      then Responded \<lparr>ok = False, status = 500, resp_text = ''Internal Server Error'',
                      resp_json = Inl (Error ''SyntaxError'' ''Unexpected token I in JSON'')\<rparr>
      else Responded \<lparr>ok = True, status = 200, resp_text = ''[]'', resp_json = Inr (JArr [])\<rparr>)"

text \<open>
  The sequence a load operation stores for an outcome of its request: the body of a
  successful response when it parses to a sequence, the empty sequence otherwise.
\<close>

definition loaded :: "outcome \<Rightarrow> jsval" where
  "loaded out =
     (case out of
        Rejected e \<Rightarrow> JArr []
      | Responded resp \<Rightarrow>
          if ok resp then
            (case resp_json resp of
               Inl e \<Rightarrow> JArr []
             | Inr b \<Rightarrow> if isArray b then b else JArr [])
          else JArr [])"

text \<open>
  More backends: one that acknowledges a delete request and answers every other request
  with a sequence of one list record; one that answers every request with a JSON object;
  and one that answers every request with a successful status and a body that is not
  JSON.
\<close>

definition delete_succeeds :: network where
  "delete_succeeds n rq =
     (if path rq = ''/list/delete''
      then Responded \<lparr>ok = True, status = 200, resp_text = ''{}'', resp_json = Inr (JObj [])\<rparr>
      else Responded \<lparr>ok = True, status = 200, resp_text = '''',
                      resp_json = Inr (JArr [JObj [(''id'', JNum 2), (''name'', JStr ''Chores''),
                        (''description'', JStr ''''), (''is_done'', JBool False)]])\<rparr>)"

definition load_malformed :: network where
  "load_malformed n rq =
     Responded \<lparr>ok = True, status = 200, resp_text = '''',
                 resp_json = Inr (JObj [(''detail'', JStr ''none'')])\<rparr>"

definition unparsed :: network where
  "unparsed n rq =
     Responded \<lparr>ok = True, status = 200, resp_text = ''OK'',
                 resp_json = Inl (Error ''SyntaxError'' ''Unexpected token O in JSON'')\<rparr>"

text \<open>A session whose list slice holds two records and whose task slice holds one.\<close>

definition browse_state :: jsval where
  "browse_state =
     JObj [(''login'', JObj [(''accessId'', JStr ''tok-1''), (''username'', JStr ''alice'')]),
           (''lists'', JObj [(''list'', JArr [JObj [(''id'', JNum 1)], JObj [(''id'', JNum 2)]]),
                            (''showAddList'', JBool False),
                            (''name'', JStr ''   ''), (''description'', JStr '''')]),
           (''tasks'', JObj [(''tasks'', JArr [JObj [(''id'', JNum 5)]]),
                            (''showAddTaskForm'', JBool False),
                            (''name'', JStr ''''), (''description'', JStr ''''),
                            (''taskListName'', JStr ''Chores''), (''taskListId'', JNum 2)])]"

definition browse_world :: world where
  "browse_world =
     \<lparr>store = browse_state, toast = None, lastError = Some ''an earlier error'', requests = []\<rparr>"

definition logged_out_world :: world where
  "logged_out_world =
     \<lparr>store = JObj [(''login'', JObj [(''accessId'', JStr '''')]),
                    (''lists'', list_initialState), (''tasks'', task_initialState)],
      toast = None, lastError = None, requests = []\<rparr>"


section \<open>Auxiliary facts\<close>


lemma field_update_same: "field (JObj (AList.update k v al)) k = v"
  by (simp add: field_def update_conv')

lemma field_update_other: "k' \<noteq> k \<Longrightarrow> field (JObj (AList.update k v al)) k' = field (JObj al) k'"
  by (simp add: field_def update_conv')

lemma field_spread: "field (JObj (spread s)) k = field s k"
  by (simp add: field_def)

lemma field_Cons: "field (JObj ((k', v) # kvs)) k = (if k = k' then v else field (JObj kvs) k)"
  by (simp add: field_def)

lemma field_Nil: "field (JObj []) k = JUndefined"
  by (simp add: field_def)

lemma field_default_empty: "field (default_param (JObj []) s) k = field s k"
  by (simp add: field_def default_param_def)

lemma loginReducer_foreign:
  "t \<notin> set login_types \<Longrightarrow>
   loginReducer s \<lparr>atype = t, payload = p\<rparr> = Inr (default_param login_initialState s)"
  by (simp add: loginReducer_def login_types_def)

lemma listReducer_foreign:
  "t \<notin> set list_types \<Longrightarrow>
   listReducer s \<lparr>atype = t, payload = p\<rparr> = default_param list_initialState s"
  by (simp add: listReducer_def list_types_def)

lemma taskReducer_foreign:
  "t \<notin> set task_types \<Longrightarrow>
   taskReducer s \<lparr>atype = t, payload = p\<rparr> = default_param task_initialState s"
  by (simp add: taskReducer_def task_types_def)

lemma list_types_foreign:
  "JStr SET_LISTS \<notin> set login_types" "JStr SET_LISTS \<notin> set task_types"
  "JStr SET_TASKS \<notin> set login_types" "JStr SET_TASKS \<notin> set list_types"
  by (simp_all add: login_types_def task_types_def list_types_def constants_defs)

lemma listReducer_SET_LISTS:
  "listReducer s \<lparr>atype = JStr SET_LISTS, payload = p\<rparr> =
   JObj (AList.update ''list'' (if isArray p then p else JArr [])
          (spread (default_param list_initialState s)))"
  by (simp add: listReducer_def)

lemma taskReducer_SET_TASKS:
  "taskReducer s \<lparr>atype = JStr SET_TASKS, payload = p\<rparr> =
   JObj (AList.update ''tasks'' (if isArray p then p else JArr [])
          (spread (default_param task_initialState s)))"
  by (simp add: taskReducer_def)

lemma dispatch_setLists:
  "dispatch App_test_rootReducer (setLists v) s =
   Inr (JObj
     [(''login'', default_param login_initialState (field s ''login'')),
      (''lists'', JObj (AList.update ''list'' (if isArray v then v else JArr [])
                    (spread (default_param list_initialState (field s ''lists''))))),
      (''tasks'', default_param task_initialState (field s ''tasks''))])"
  by (simp add: dispatch_def setLists_def App_test_rootReducer_def combineReducers_def
      field_Cons field_Nil field_default_empty loginReducer_foreign taskReducer_foreign
      list_types_foreign listReducer_SET_LISTS)

lemma dispatch_setTasks:
  "dispatch App_test_rootReducer (setTasks v) s =
   Inr (JObj
     [(''login'', default_param login_initialState (field s ''login'')),
      (''lists'', default_param list_initialState (field s ''lists'')),
      (''tasks'', JObj (AList.update ''tasks'' (if isArray v then v else JArr [])
                    (spread (default_param task_initialState (field s ''tasks'')))))])"
  by (simp add: dispatch_def setTasks_def App_test_rootReducer_def combineReducers_def
      field_Cons field_Nil field_default_empty loginReducer_foreign listReducer_foreign
      list_types_foreign taskReducer_SET_TASKS)

lemmas io_defs = io_return_def io_throw_def io_gets_def io_bind_def io_seq_def io_try_def
  fetch_def json_body_def setLastError_def showToast_def props_dispatch_def Let_def

lemma loadLists_success:
  assumes "net (length (requests w))
             \<lparr>path = ''/list/list'',
              body = [(''access_id'', guarded (field (store w) ''login'') ''accessId'')]\<rparr>
           = Responded resp"
    and "ok resp" and "resp_json resp = Inr b"
  shows "loadLists App_test_rootReducer net w =
         (Inr (), w\<lparr>requests := requests w @
                       [\<lparr>path = ''/list/list'',
                         body = [(''access_id'', guarded (field (store w) ''login'') ''accessId'')]\<rparr>],
                     store := JObj
     [(''login'', default_param login_initialState (field (store w) ''login'')),
      (''lists'', JObj (AList.update ''list'' (if isArray b then b else JArr [])
                    (spread (default_param list_initialState (field (store w) ''lists''))))),
      (''tasks'', default_param task_initialState (field (store w) ''tasks''))]\<rparr>)"
  using assms by (simp add: loadLists_def io_defs dispatch_setLists)


subsection \<open>The reducers, case by case\<close>

lemma field_update:
  "field (JObj (AList.update k v al)) k' = (if k' = k then v else field (JObj al) k')"
  by (simp add: field_def update_conv')

lemma list_cases:
  "atype a = JStr SET_LISTS \<or> atype a = JStr SWITCH_SHOW_ADD_LIST_FORM \<or>
   atype a = JStr SET_CREATE_LIST_NAME \<or> atype a = JStr SET_CREATE_LIST_DESCRIPTION \<or>
   atype a \<notin> set list_types"
  by (auto simp: list_types_def)

lemma task_cases:
  "atype a = JStr SET_TASKS \<or> atype a = JStr SET_TASKS_LIST_NAME \<or>
   atype a = JStr SET_TASKS_LIST_ID \<or> atype a = JStr SWITCH_SHOW_ADD_TASK_FORM \<or>
   atype a = JStr SWITCH_SET_TASK_IS_DONE \<or> atype a = JStr SET_CREATE_TASK_NAME \<or>
   atype a = JStr SET_CREATE_TASK_DESCRIPTION \<or> atype a \<notin> set task_types"
  by (auto simp: task_types_def)

lemma login_cases:
  "atype a = JStr SET_ACCESS_ID \<or> atype a = JStr SET_USERNAME \<or>
   atype a = JStr SET_PASSWORD \<or> atype a = JStr LOGIN_SUCCESS \<or>
   atype a \<notin> set login_types"
  by (auto simp: login_types_def)

lemma list_fields:
  "field (listReducer s a) k = written (list_writes a) (default_param list_initialState s) k"
  using list_cases [of a]
  by (elim disjE)
    (simp_all add: listReducer_def list_writes_def written_def list_types_def constants_defs
      field_update field_spread)

lemma task_fields:
  "field (taskReducer s a) k = written (task_writes a) (default_param task_initialState s) k"
  using task_cases [of a]
  by (elim disjE)
    (simp_all add: taskReducer_def task_writes_def written_def task_types_def constants_defs
      field_update field_spread)

lemma login_fields:
  assumes "loginReducer s a = Inr s'"
  shows "field s' k = written (login_writes a) (default_param login_initialState s) k"
  using login_cases [of a] assms
  by (elim disjE)
    (auto simp add: loginReducer_def login_writes_def written_def login_types_def
      constants_defs get_prop_def field_update field_spread split: if_splits)

lemma login_throws:
  "(\<exists>e. loginReducer s a = Inl e) =
   (atype a = JStr LOGIN_SUCCESS \<and> (payload a = JUndefined \<or> payload a = JNull))"
  using login_cases [of a]
  by (elim disjE)
    (simp_all add: loginReducer_def login_types_def get_prop_def constants_defs)

lemma writes_length:
  "atype a \<in> set login_types \<Longrightarrow>
     length (login_writes a) = (if atype a = JStr LOGIN_SUCCESS then 2 else 1)"
  "atype a \<in> set list_types \<Longrightarrow> length (list_writes a) = 1"
  "atype a \<in> set task_types \<Longrightarrow> length (task_writes a) = 1"
  by (auto simp: login_writes_def list_writes_def task_writes_def
      login_types_def list_types_def task_types_def constants_defs)

lemma written_differs:
  "{k. written ws s k \<noteq> field s k} \<subseteq> set (map fst ws)"
proof
  fix k assume "k \<in> {k. written ws s k \<noteq> field s k}"
  then have "map_of ws k \<noteq> None"
    by (auto simp: written_def split: option.splits)
  then show "k \<in> set (map fst ws)"
    by (simp add: map_of_eq_None_iff)
qed

subsection \<open>The collection fields stay sequences\<close>

lemma listReducer_keeps_sequence:
  assumes "s = JUndefined \<or> isArray (field s ''list'')"
  shows "isArray (field (listReducer s a) ''list'')"
proof (cases "atype a = JStr SET_LISTS")
  case True
  then show ?thesis
    by (simp add: listReducer_def field_update_same)
next
  case False
  then have "map_of (list_writes a) ''list'' = None"
    by (simp add: list_writes_def)
  then have "field (listReducer s a) ''list'' = field (default_param list_initialState s) ''list''"
    by (simp add: list_fields written_def)
  with assms show ?thesis
    by (auto simp: default_param_def list_initialState_def field_Cons)
qed

lemma taskReducer_keeps_sequence:
  assumes "s = JUndefined \<or> isArray (field s ''tasks'')"
  shows "isArray (field (taskReducer s a) ''tasks'')"
proof (cases "atype a = JStr SET_TASKS")
  case True
  then show ?thesis
    by (simp add: taskReducer_def field_update_same)
next
  case False
  then have "map_of (task_writes a) ''tasks'' = None"
    by (simp add: task_writes_def)
  then have "field (taskReducer s a) ''tasks'' = field (default_param task_initialState s) ''tasks''"
    by (simp add: task_fields written_def)
  with assms show ?thesis
    by (auto simp: default_param_def task_initialState_def field_Cons)
qed

lemma foldl_listReducer_sequence:
  "isArray (field s ''list'') \<Longrightarrow> isArray (field (foldl listReducer s as) ''list'')"
  by (induction as arbitrary: s) (simp_all add: listReducer_keeps_sequence)

lemma foldl_taskReducer_sequence:
  "isArray (field s ''tasks'') \<Longrightarrow> isArray (field (foldl taskReducer s as) ''tasks'')"
  by (induction as arbitrary: s) (simp_all add: taskReducer_keeps_sequence)


subsection \<open>The operations of the components\<close>

lemma loadLists_result:
  "fst (loadLists App_test_rootReducer net w) = Inr () \<and>
   requests (snd (loadLists App_test_rootReducer net w)) =
     requests w @ [\<lparr>path = ''/list/list'',
                     body = [(''access_id'', guarded (field (store w) ''login'') ''accessId'')]\<rparr>] \<and>
   toast (snd (loadLists App_test_rootReducer net w)) = toast w \<and>
   store (snd (loadLists App_test_rootReducer net w)) =
     JObj
       [(''login'', default_param login_initialState (field (store w) ''login'')),
        (''lists'', JObj (AList.update ''list''
           (loaded (net (length (requests w))
              \<lparr>path = ''/list/list'',
               body = [(''access_id'', guarded (field (store w) ''login'') ''accessId'')]\<rparr>))
           (spread (default_param list_initialState (field (store w) ''lists''))))),
        (''tasks'', default_param task_initialState (field (store w) ''tasks''))]"
proof (cases "net (length (requests w))
         \<lparr>path = ''/list/list'',
          body = [(''access_id'', guarded (field (store w) ''login'') ''accessId'')]\<rparr>")
  case (Rejected e)
  then show ?thesis
    by (simp add: loadLists_def io_defs dispatch_setLists loaded_def)
next
  case (Responded resp)
  show ?thesis
  proof (cases "ok resp")
    case False
    with Responded show ?thesis
      by (simp add: loadLists_def io_defs dispatch_setLists loaded_def)
  next
    case True
    show ?thesis
    proof (cases "resp_json resp")
      case (Inl e)
      with Responded True show ?thesis
        by (simp add: loadLists_def io_defs dispatch_setLists loaded_def)
    next
      case (Inr b)
      with Responded True show ?thesis
        by (simp add: loadLists_def io_defs dispatch_setLists loaded_def)
    qed
  qed
qed

lemma loadTasks_result:
  "fst (loadTasks App_test_rootReducer net id' w) = Inr () \<and>
   requests (snd (loadTasks App_test_rootReducer net id' w)) =
     requests w @ [\<lparr>path = ''/task/list'',
                     body = [(''access_id'', guarded (field (store w) ''login'') ''accessId''),
                             (''list_id'', id')]\<rparr>] \<and>
   toast (snd (loadTasks App_test_rootReducer net id' w)) = toast w \<and>
   store (snd (loadTasks App_test_rootReducer net id' w)) =
     JObj
       [(''login'', default_param login_initialState (field (store w) ''login'')),
        (''lists'', default_param list_initialState (field (store w) ''lists'')),
        (''tasks'', JObj (AList.update ''tasks''
           (loaded (net (length (requests w))
              \<lparr>path = ''/task/list'',
               body = [(''access_id'', guarded (field (store w) ''login'') ''accessId''),
                       (''list_id'', id')]\<rparr>))
           (spread (default_param task_initialState (field (store w) ''tasks'')))))]"
proof (cases "net (length (requests w))
         \<lparr>path = ''/task/list'',
          body = [(''access_id'', guarded (field (store w) ''login'') ''accessId''),
                  (''list_id'', id')]\<rparr>")
  case (Rejected e)
  then show ?thesis
    by (simp add: loadTasks_def io_defs dispatch_setTasks loaded_def)
next
  case (Responded resp)
  show ?thesis
  proof (cases "ok resp")
    case False
    with Responded show ?thesis
      by (simp add: loadTasks_def io_defs dispatch_setTasks loaded_def)
  next
    case True
    show ?thesis
    proof (cases "resp_json resp")
      case (Inl e)
      with Responded True show ?thesis
        by (simp add: loadTasks_def io_defs dispatch_setTasks loaded_def)
    next
      case (Inr b)
      with Responded True show ?thesis
        by (simp add: loadTasks_def io_defs dispatch_setTasks loaded_def)
    qed
  qed
qed

lemma loadTasks_success:
  assumes "net (length (requests w))
             \<lparr>path = ''/task/list'',
              body = [(''access_id'', guarded (field (store w) ''login'') ''accessId''),
                      (''list_id'', id')]\<rparr>
           = Responded resp"
    and "ok resp" and "resp_json resp = Inr b"
  shows "loadTasks App_test_rootReducer net id' w =
         (Inr (), w\<lparr>requests := requests w @
                       [\<lparr>path = ''/task/list'',
                         body = [(''access_id'', guarded (field (store w) ''login'') ''accessId''),
                                 (''list_id'', id')]\<rparr>],
                     store := JObj
     [(''login'', default_param login_initialState (field (store w) ''login'')),
      (''lists'', default_param list_initialState (field (store w) ''lists'')),
      (''tasks'', JObj (AList.update ''tasks'' (if isArray b then b else JArr [])
                    (spread (default_param task_initialState (field (store w) ''tasks'')))))]\<rparr>)"
  using assms by (simp add: loadTasks_def io_defs dispatch_setTasks)

lemma name_blank_is_blank: "is_blank v \<Longrightarrow> name_blank v w = (Inr True, w)"
  by (cases v) (simp_all add: name_blank_def is_blank_def io_return_def)

lemma createList_no_token:
  assumes "\<not> truthy (guarded (field (store w) ''login'') ''accessId'')"
  shows "createList r net w =
         (Inr (), w\<lparr>lastError := Some ''You must be logged in to create a list.''\<rparr>)"
  using assms by (simp add: createList_def io_defs)

lemma createList_blank_name:
  assumes "truthy (guarded (field (store w) ''login'') ''accessId'')"
    and "is_blank (guarded (field (store w) ''lists'') ''name'')"
  shows "createList r net w = (Inr (), w\<lparr>lastError := Some ''List name is required.''\<rparr>)"
  using assms by (simp add: createList_def io_defs name_blank_is_blank)

lemma createTask_no_token:
  assumes "\<not> truthy (guarded (field (store w) ''login'') ''accessId'')"
  shows "createTask r net w =
         (Inr (), w\<lparr>lastError := Some ''You must be logged in to create a task.''\<rparr>)"
  using assms by (simp add: createTask_def io_defs)

lemma createTask_no_list:
  assumes "truthy (guarded (field (store w) ''login'') ''accessId'')"
    and "\<not> truthy (guarded (field (store w) ''tasks'') ''taskListId'')"
  shows "createTask r net w =
         (Inr (), w\<lparr>lastError := Some ''Please select a list before adding a task.''\<rparr>)"
  using assms by (simp add: createTask_def io_defs)

lemma createTask_blank_name:
  assumes "truthy (guarded (field (store w) ''login'') ''accessId'')"
    and "truthy (guarded (field (store w) ''tasks'') ''taskListId'')"
    and "is_blank (guarded (field (store w) ''tasks'') ''name'')"
  shows "createTask r net w = (Inr (), w\<lparr>lastError := Some ''Task name is required.''\<rparr>)"
  using assms by (simp add: createTask_def io_defs name_blank_is_blank)

lemma deleteList_success:
  assumes "net (length (requests w))
             \<lparr>path = ''/list/delete'',
              body = [(''access_id'', guarded (field (store w) ''login'') ''accessId''),
                      (''id'', id')]\<rparr>
           = Responded resp"
    and "ok resp" and "resp_json resp = Inr ack"
  shows "deleteList App_test_rootReducer net id' w =
         loadLists App_test_rootReducer net
           (w\<lparr>requests := requests w @
                 [\<lparr>path = ''/list/delete'',
                   body = [(''access_id'', guarded (field (store w) ''login'') ''accessId''),
                           (''id'', id')]\<rparr>],
               toast := Some (''List deleted'', ''success''), lastError := None\<rparr>)"
    (is "_ = loadLists _ _ ?w1")
proof -
  obtain w2 where l: "loadLists App_test_rootReducer net ?w1 = (Inr (), w2)"
    using loadLists_result [of net ?w1] by (cases "loadLists App_test_rootReducer net ?w1") auto
  show ?thesis
    using assms l by (simp add: deleteList_def io_defs)
qed


subsection \<open>A create request that is refused\<close>

lemma default_param_simps:
  "default_param d (JObj kvs) = JObj kvs"
  by (simp add: default_param_def)

lemma reset_types_foreign:
  "JStr SET_CREATE_LIST_NAME \<notin> set login_types"
  "JStr SET_CREATE_LIST_NAME \<notin> set task_types"
  "JStr SET_CREATE_LIST_DESCRIPTION \<notin> set login_types"
  "JStr SET_CREATE_LIST_DESCRIPTION \<notin> set task_types"
  "JStr SWITCH_SHOW_ADD_LIST_FORM \<notin> set login_types"
  "JStr SWITCH_SHOW_ADD_LIST_FORM \<notin> set task_types"
  "JStr SET_CREATE_TASK_NAME \<notin> set login_types"
  "JStr SET_CREATE_TASK_NAME \<notin> set list_types"
  "JStr SET_CREATE_TASK_DESCRIPTION \<notin> set login_types"
  "JStr SET_CREATE_TASK_DESCRIPTION \<notin> set list_types"
  "JStr SWITCH_SHOW_ADD_TASK_FORM \<notin> set login_types"
  "JStr SWITCH_SHOW_ADD_TASK_FORM \<notin> set list_types"
  by (simp_all add: login_types_def task_types_def list_types_def constants_defs)

lemma listReducer_reset_cases:
  "listReducer s \<lparr>atype = JStr SET_CREATE_LIST_NAME, payload = p\<rparr> =
     JObj (AList.update ''name'' p (spread (default_param list_initialState s)))"
  "listReducer s \<lparr>atype = JStr SET_CREATE_LIST_DESCRIPTION, payload = p\<rparr> =
     JObj (AList.update ''description'' p (spread (default_param list_initialState s)))"
  "listReducer s \<lparr>atype = JStr SWITCH_SHOW_ADD_LIST_FORM, payload = p\<rparr> =
     JObj (AList.update ''showAddList'' p (spread (default_param list_initialState s)))"
  by (simp_all add: listReducer_def constants_defs)

lemma taskReducer_reset_cases:
  "taskReducer s \<lparr>atype = JStr SET_CREATE_TASK_NAME, payload = p\<rparr> =
     JObj (AList.update ''name'' p (spread (default_param task_initialState s)))"
  "taskReducer s \<lparr>atype = JStr SET_CREATE_TASK_DESCRIPTION, payload = p\<rparr> =
     JObj (AList.update ''description'' p (spread (default_param task_initialState s)))"
  "taskReducer s \<lparr>atype = JStr SWITCH_SHOW_ADD_TASK_FORM, payload = p\<rparr> =
     JObj (AList.update ''showAddTaskForm'' p (spread (default_param task_initialState s)))"
  by (simp_all add: taskReducer_def constants_defs)

lemma dispatch_list_slice:
  assumes "JStr c \<notin> set login_types" and "JStr c \<notin> set task_types"
  shows "dispatch App_test_rootReducer (JObj [(''type'', JStr c), (''payload'', v)]) s =
         Inr (JObj
           [(''login'', default_param login_initialState (field s ''login'')),
            (''lists'', listReducer (field s ''lists'') \<lparr>atype = JStr c, payload = v\<rparr>),
            (''tasks'', default_param task_initialState (field s ''tasks''))])"
  using assms
  by (simp add: dispatch_def App_test_rootReducer_def combineReducers_def
      field_Cons field_Nil field_default_empty loginReducer_foreign taskReducer_foreign)

lemma dispatch_task_slice:
  assumes "JStr c \<notin> set login_types" and "JStr c \<notin> set list_types"
  shows "dispatch App_test_rootReducer (JObj [(''type'', JStr c), (''payload'', v)]) s =
         Inr (JObj
           [(''login'', default_param login_initialState (field s ''login'')),
            (''lists'', default_param list_initialState (field s ''lists'')),
            (''tasks'', taskReducer (field s ''tasks'') \<lparr>atype = JStr c, payload = v\<rparr>)])"
  using assms
  by (simp add: dispatch_def App_test_rootReducer_def combineReducers_def
      field_Cons field_Nil field_default_empty loginReducer_foreign listReducer_foreign)

lemma name_blank_not:
  assumes "v = JStr n" and "trim n \<noteq> []"
  shows "name_blank v w = (Inr False, w)"
proof -
  from assms(2) have "n \<noteq> []"
    by (auto simp: trim_def)
  with assms show ?thesis
    by (simp add: name_blank_def io_return_def)
qed

lemma createList_not_ok:
  assumes tok: "truthy (guarded (field (store w) ''login'') ''accessId'')"
    and nm: "guarded (field (store w) ''lists'') ''name'' = JStr n" "trim n \<noteq> []"
    and net: "net (length (requests w))
                \<lparr>path = ''/list/create'',
                 body = [(''access_id'', guarded (field (store w) ''login'') ''accessId''),
                         (''name'', JStr n),
                         (''description'', guarded (field (store w) ''lists'') ''description''),
                         (''is_done'', JBool False)]\<rparr>
              = Responded resp"
    and nok: "\<not> ok resp"
  shows "fst (createList App_test_rootReducer net w) = Inr () \<and>
         requests (snd (createList App_test_rootReducer net w)) =
           requests w @
             [\<lparr>path = ''/list/create'',
               body = [(''access_id'', guarded (field (store w) ''login'') ''accessId''),
                       (''name'', JStr n),
                       (''description'', guarded (field (store w) ''lists'') ''description''),
                       (''is_done'', JBool False)]\<rparr>,
              \<lparr>path = ''/list/list'',
               body = [(''access_id'', guarded (field (store w) ''login'') ''accessId'')]\<rparr>] \<and>
         toast (snd (createList App_test_rootReducer net w)) =
           Some (''Create failed: '' @ text_or_status resp, ''error'') \<and>
         field (store (snd (createList App_test_rootReducer net w))) ''lists'' =
           JObj (AList.update ''showAddList''
                  (JBool (\<not> truthy (field (default_param list_initialState
                                            (field (store w) ''lists'')) ''showAddList'')))
                (AList.update ''description'' (JStr '''')
                (AList.update ''name'' (JStr '''')
                (AList.update ''list''
                   (loaded (net (Suc (length (requests w)))
                      \<lparr>path = ''/list/list'',
                       body = [(''access_id'',
                                guarded (field (store w) ''login'') ''accessId'')]\<rparr>))
                   (spread (default_param list_initialState (field (store w) ''lists'')))))))"
proof -
  let ?crq = "\<lparr>path = ''/list/create'',
                 body = [(''access_id'', guarded (field (store w) ''login'') ''accessId''),
                         (''name'', JStr n),
                         (''description'', guarded (field (store w) ''lists'') ''description''),
                         (''is_done'', JBool False)]\<rparr>"
  let ?wB = "w\<lparr>requests := requests w @ [?crq],
               toast := Some (''Create failed: '' @ text_or_status resp, ''error''),
               lastError := Some (''Create failed: '' @ text_or_status resp)\<rparr>"
  obtain wC where l: "loadLists App_test_rootReducer net ?wB = (Inr (), wC)"
    using loadLists_result [of net ?wB]
    by (cases "loadLists App_test_rootReducer net ?wB") auto
  from loadLists_result [of net ?wB] l
  have rq: "requests wC = requests w @ [?crq,
              \<lparr>path = ''/list/list'',
               body = [(''access_id'', guarded (field (store w) ''login'') ''accessId'')]\<rparr>]"
    and ts: "toast wC = Some (''Create failed: '' @ text_or_status resp, ''error'')"
    and st: "store wC =
      JObj
       [(''login'', default_param login_initialState (field (store w) ''login'')),
        (''lists'', JObj (AList.update ''list''
           (loaded (net (Suc (length (requests w)))
              \<lparr>path = ''/list/list'',
               body = [(''access_id'', guarded (field (store w) ''login'') ''accessId'')]\<rparr>))
           (spread (default_param list_initialState (field (store w) ''lists''))))),
        (''tasks'', default_param task_initialState (field (store w) ''tasks''))]"
    by simp_all
  have run: "createList App_test_rootReducer net w =
      io_seq (props_dispatch App_test_rootReducer (setCreateListName (JStr '''')))
      (io_seq (props_dispatch App_test_rootReducer (setCreateListDescription (JStr '''')))
      (io_bind (io_gets (\<lambda>w. guarded (field (store w) ''lists'') ''showAddList''))
         (\<lambda>currentVal. props_dispatch App_test_rootReducer (switchShowAddListForm currentVal))))
      wC"
    using tok nm net nok l
    by (simp add: createList_def io_bind_def io_seq_def io_try_def io_gets_def fetch_def
        setLastError_def showToast_def Let_def name_blank_not
        props_dispatch_def setCreateListName_def setCreateListDescription_def
        switchShowAddListForm_def dispatch_list_slice reset_types_foreign)
  show ?thesis
    unfolding run
    by (simp add: io_bind_def io_seq_def io_gets_def props_dispatch_def
        setCreateListName_def setCreateListDescription_def switchShowAddListForm_def
        dispatch_list_slice reset_types_foreign listReducer_reset_cases
        st rq ts field_Cons guarded_def field_update_other field_spread default_param_simps)
qed


lemma createTask_not_ok:
  assumes tok: "truthy (guarded (field (store w) ''login'') ''accessId'')"
    and lid: "truthy (guarded (field (store w) ''tasks'') ''taskListId'')"
    and nm: "guarded (field (store w) ''tasks'') ''name'' = JStr n" "trim n \<noteq> []"
    and net: "net (length (requests w))
                \<lparr>path = ''/task/create'',
                 body = [(''access_id'', guarded (field (store w) ''login'') ''accessId''),
                         (''name'', JStr n),
                         (''description'', guarded (field (store w) ''tasks'') ''description''),
                         (''list_id'', guarded (field (store w) ''tasks'') ''taskListId''),
                         (''is_done'', JBool False)]\<rparr>
              = Responded resp"
    and nok: "\<not> ok resp"
  shows "fst (createTask App_test_rootReducer net w) = Inr () \<and>
         requests (snd (createTask App_test_rootReducer net w)) =
           requests w @
             [\<lparr>path = ''/task/create'',
               body = [(''access_id'', guarded (field (store w) ''login'') ''accessId''),
                       (''name'', JStr n),
                       (''description'', guarded (field (store w) ''tasks'') ''description''),
                       (''list_id'', guarded (field (store w) ''tasks'') ''taskListId''),
                       (''is_done'', JBool False)]\<rparr>,
              \<lparr>path = ''/task/list'',
               body = [(''access_id'', guarded (field (store w) ''login'') ''accessId''),
                       (''list_id'', guarded (field (store w) ''tasks'') ''taskListId'')]\<rparr>] \<and>
         toast (snd (createTask App_test_rootReducer net w)) =
           Some (''Create failed: '' @ text_or_status resp, ''error'') \<and>
         field (store (snd (createTask App_test_rootReducer net w))) ''tasks'' =
           JObj (AList.update ''showAddTaskForm''
                  (JBool (\<not> truthy (field (default_param task_initialState
                                            (field (store w) ''tasks'')) ''showAddTaskForm'')))
                (AList.update ''description'' (JStr '''')
                (AList.update ''name'' (JStr '''')
                (AList.update ''tasks''
                   (loaded (net (Suc (length (requests w)))
                      \<lparr>path = ''/task/list'',
                       body = [(''access_id'', guarded (field (store w) ''login'') ''accessId''),
                               (''list_id'',
                                guarded (field (store w) ''tasks'') ''taskListId'')]\<rparr>))
                   (spread (default_param task_initialState (field (store w) ''tasks'')))))))"
proof -
  let ?lid = "guarded (field (store w) ''tasks'') ''taskListId''"
  let ?crq = "\<lparr>path = ''/task/create'',
                 body = [(''access_id'', guarded (field (store w) ''login'') ''accessId''),
                         (''name'', JStr n),
                         (''description'', guarded (field (store w) ''tasks'') ''description''),
                         (''list_id'', ?lid),
                         (''is_done'', JBool False)]\<rparr>"
  let ?wB = "w\<lparr>requests := requests w @ [?crq],
               toast := Some (''Create failed: '' @ text_or_status resp, ''error''),
               lastError := Some (''Create failed: '' @ text_or_status resp)\<rparr>"
  obtain wC where l: "loadTasks App_test_rootReducer net ?lid ?wB = (Inr (), wC)"
    using loadTasks_result [of net ?lid ?wB]
    by (cases "loadTasks App_test_rootReducer net ?lid ?wB") auto
  from loadTasks_result [of net ?lid ?wB] l
  have rq: "requests wC = requests w @ [?crq,
              \<lparr>path = ''/task/list'',
               body = [(''access_id'', guarded (field (store w) ''login'') ''accessId''),
                       (''list_id'', ?lid)]\<rparr>]"
    and ts: "toast wC = Some (''Create failed: '' @ text_or_status resp, ''error'')"
    and st: "store wC =
      JObj
       [(''login'', default_param login_initialState (field (store w) ''login'')),
        (''lists'', default_param list_initialState (field (store w) ''lists'')),
        (''tasks'', JObj (AList.update ''tasks''
           (loaded (net (Suc (length (requests w)))
              \<lparr>path = ''/task/list'',
               body = [(''access_id'', guarded (field (store w) ''login'') ''accessId''),
                       (''list_id'', ?lid)]\<rparr>))
           (spread (default_param task_initialState (field (store w) ''tasks'')))))]"
    by simp_all
  have run: "createTask App_test_rootReducer net w =
      io_seq (props_dispatch App_test_rootReducer (setCreateTaskName (JStr '''')))
      (io_seq (props_dispatch App_test_rootReducer (setCreateTaskDescription (JStr '''')))
      (io_bind (io_gets (\<lambda>w. guarded (field (store w) ''tasks'') ''showAddTaskForm''))
         (\<lambda>currentVal. props_dispatch App_test_rootReducer (switchShowAddTaskForm currentVal))))
      wC"
    using tok lid nm net nok l
    by (simp add: createTask_def io_bind_def io_seq_def io_try_def io_gets_def fetch_def
        setLastError_def showToast_def Let_def name_blank_not
        props_dispatch_def setCreateTaskName_def setCreateTaskDescription_def
        switchShowAddTaskForm_def dispatch_task_slice reset_types_foreign)
  show ?thesis
    unfolding run
    by (simp add: io_bind_def io_seq_def io_gets_def props_dispatch_def
        setCreateTaskName_def setCreateTaskDescription_def switchShowAddTaskForm_def
        dispatch_task_slice reset_types_foreign taskReducer_reset_cases
        st rq ts field_Cons guarded_def field_update_other field_spread default_param_simps)
qed

lemma trim_examples:
  "trim ''Groceries'' \<noteq> []" "trim ''Milk'' \<noteq> []" "trim ''   '' = []" "trim '''' = []"
  by (simp_all add: trim_def is_space_def)


subsection \<open>A successful status with a body that is not JSON\<close>

lemma deleteList_unparsed:
  assumes "net (length (requests w))
             \<lparr>path = ''/list/delete'',
              body = [(''access_id'', guarded (field (store w) ''login'') ''accessId''),
                      (''id'', id')]\<rparr>
           = Responded resp"
    and "ok resp" and "resp_json resp = Inl e"
  shows "deleteList r net id' w =
         (Inr (), w\<lparr>requests := requests w @
                       [\<lparr>path = ''/list/delete'',
                         body = [(''access_id'', guarded (field (store w) ''login'') ''accessId''),
                                 (''id'', id')]\<rparr>],
                     lastError := Some (''Delete exception: '' @ err_text e)\<rparr>)"
  using assms by (simp add: deleteList_def io_defs)

lemma loadLists_unparsed:
  assumes "net (length (requests w))
             \<lparr>path = ''/list/list'',
              body = [(''access_id'', guarded (field (store w) ''login'') ''accessId'')]\<rparr>
           = Responded resp"
    and "ok resp" and "resp_json resp = Inl e"
  shows "loadLists App_test_rootReducer net w =
         (Inr (), w\<lparr>requests := requests w @
                       [\<lparr>path = ''/list/list'',
                         body = [(''access_id'', guarded (field (store w) ''login'') ''accessId'')]\<rparr>],
                     lastError := Some (''Load lists exception: '' @ err_text e),
                     store := JObj
     [(''login'', default_param login_initialState (field (store w) ''login'')),
      (''lists'', JObj (AList.update ''list'' (JArr [])
                    (spread (default_param list_initialState (field (store w) ''lists''))))),
      (''tasks'', default_param task_initialState (field (store w) ''tasks''))]\<rparr>)"
  using assms by (simp add: loadLists_def io_defs dispatch_setLists)

lemma loadTasks_unparsed:
  assumes "net (length (requests w))
             \<lparr>path = ''/task/list'',
              body = [(''access_id'', guarded (field (store w) ''login'') ''accessId''),
                      (''list_id'', id')]\<rparr>
           = Responded resp"
    and "ok resp" and "resp_json resp = Inl e"
  shows "loadTasks App_test_rootReducer net id' w =
         (Inr (), w\<lparr>requests := requests w @
                       [\<lparr>path = ''/task/list'',
                         body = [(''access_id'', guarded (field (store w) ''login'') ''accessId''),
                                 (''list_id'', id')]\<rparr>],
                     lastError := Some (''Load tasks exception: '' @ err_text e),
                     store := JObj
     [(''login'', default_param login_initialState (field (store w) ''login'')),
      (''lists'', default_param list_initialState (field (store w) ''lists'')),
      (''tasks'', JObj (AList.update ''tasks'' (JArr [])
                    (spread (default_param task_initialState (field (store w) ''tasks'')))))]\<rparr>)"
  using assms by (simp add: loadTasks_def io_defs dispatch_setTasks)


subsection \<open>Counting the fields that differ\<close>

lemma written_Cons:
  "written ((k0, v0) # ws) s k = (if k = k0 then v0 else written ws s k)"
  by (simp add: written_def)

lemma written_absent:
  assumes "k \<notin> set (map fst ws)"
  shows "written ws s k = field s k"
proof -
  from assms have "map_of ws k = None"
    by (simp add: map_of_eq_None_iff)
  then show ?thesis
    by (simp add: written_def)
qed

lemma written_finite: "finite {k. written ws s k \<noteq> field s k}"
  using written_differs [of ws s] by (rule finite_subset) simp

lemma written_card_exact:
  assumes "distinct (map fst ws)"
  shows "card {k. written ws s k \<noteq> field s k}
           = length (filter (\<lambda>(k, v). v \<noteq> field s k) ws)"
  using assms
proof (induction ws)
  case Nil
  then show ?case
    by (simp add: written_def)
next
  case (Cons p ws)
  obtain k0 v0 where p: "p = (k0, v0)"
    by (cases p)
  from Cons.prems p have k0: "k0 \<notin> set (map fst ws)" and d: "distinct (map fst ws)"
    by simp_all
  let ?D = "{k. written ws s k \<noteq> field s k}"
  have notin: "k0 \<notin> ?D"
    using written_absent [OF k0, of s] by simp
  have split: "{k. written (p # ws) s k \<noteq> field s k}
                 = (if v0 \<noteq> field s k0 then insert k0 ?D else ?D)"
    using notin by (auto simp: p written_Cons)
  have "card {k. written (p # ws) s k \<noteq> field s k}
          = (if v0 \<noteq> field s k0 then Suc (card ?D) else card ?D)"
    unfolding split using notin written_finite [of ws s] by simp
  with Cons.IH [OF d] show ?case
    by (simp add: p)
qed

lemma writes_distinct:
  "distinct (map fst (login_writes a))"
  "distinct (map fst (list_writes a))"
  "distinct (map fst (task_writes a))"
  by (simp_all add: login_writes_def list_writes_def task_writes_def)


section \<open>The store built by configureStore\<close>

text \<open>
  Claim C1. The store built by \<open>configureStore\<close> holds the login slice only: its first
  state is \<open>{login: {accessId: undefined}}\<close>, and reading \<open>lists\<close> or \<open>tasks\<close> in it gives
  \<open>undefined\<close>. The three slice defaults together are the first state of a store built
  on the root reducer of App.test.js, which is a different state. An action of a type no
  reducer has a case for leaves the state of the store as it is.
\<close>

theorem configureStore_login_only:
  "configureStore = Inr (JObj [(''login'', login_initialState)]) \<and>
   field (JObj [(''login'', login_initialState)]) ''lists'' = JUndefined \<and>
   field (JObj [(''login'', login_initialState)]) ''tasks'' = JUndefined \<and>
   createStore App_test_rootReducer =
     Inr (JObj [(''login'', login_initialState), (''lists'', list_initialState),
                (''tasks'', task_initialState)]) \<and>
   configureStore \<noteq> createStore App_test_rootReducer \<and>
   dispatch rootReducer (JObj [(''type'', JStr ''TEST_ACTION'')])
     (JObj [(''login'', login_initialState)]) = Inr (JObj [(''login'', login_initialState)])"
  by (simp add: configureStore_def createStore_def rootReducer_def App_test_rootReducer_def
      combineReducers_def dispatch_def INIT_def field_Cons field_Nil field_default_empty
      loginReducer_foreign listReducer_foreign taskReducer_foreign
      login_types_def list_types_def task_types_def constants_defs default_param_def
      login_initialState_def)


section \<open>The frame of a recognized action\<close>

text \<open>
  Claim C2, as stated, fails: \<open>LOGIN_SUCCESS\<close> on the default login state changes the two
  fields \<open>accessId\<close> and \<open>username\<close>, and \<open>SET_CREATE_LIST_NAME\<close> with the empty string
  on the default list state changes no field.
\<close>

theorem exactly_one_field_counterexample:
  "loginReducer login_initialState
     \<lparr>atype = JStr LOGIN_SUCCESS,
      payload = JObj [(''username'', JStr ''alice''), (''accessId'', JStr ''tok-1'')]\<rparr>
     = Inr (JObj [(''accessId'', JStr ''tok-1''), (''username'', JStr ''alice'')]) \<and>
   field (JObj [(''accessId'', JStr ''tok-1''), (''username'', JStr ''alice'')]) ''accessId''
     \<noteq> field login_initialState ''accessId'' \<and>
   field (JObj [(''accessId'', JStr ''tok-1''), (''username'', JStr ''alice'')]) ''username''
     \<noteq> field login_initialState ''username'' \<and>
   listReducer list_initialState \<lparr>atype = JStr SET_CREATE_LIST_NAME, payload = JStr ''''\<rparr>
     = list_initialState"
  by (simp add: loginReducer_def listReducer_def login_initialState_def list_initialState_def
      default_param_def get_prop_def field_Cons field_Nil constants_defs)

text \<open>
  Claim C2, amended. For every slice reducer, every input state and every recognized
  action on which the reducer returns, every field of the resulting state is settled:
  a field the action's case writes has the value the case gives it (the payload; the
  empty sequence for \<open>SET_LISTS\<close> and \<open>SET_TASKS\<close> with a payload that is not a sequence;
  \<open>payload.accessId\<close> and \<open>payload.username\<close> for \<open>LOGIN_SUCCESS\<close>), and every other
  field has the value it has in the input state (in the default state when the input is
  \<open>undefined\<close>). A case writes exactly one field, and \<open>LOGIN_SUCCESS\<close> exactly two, and
  the fields that differ from the input are as many as the written fields whose new
  value is not the value they had: exactly one for a one-field case whose value is new,
  none when the values written are the values the fields have, up to two for
  \<open>LOGIN_SUCCESS\<close>. The list and task reducers always return; the login reducer throws
  exactly on \<open>LOGIN_SUCCESS\<close> with an \<open>undefined\<close> or \<open>null\<close> payload.
\<close>

theorem recognized_action_frame:
  "(atype a \<in> set login_types \<and> loginReducer s a = Inr s' \<longrightarrow>
      (\<forall>k. field s' k = written (login_writes a) (default_param login_initialState s) k) \<and>
      length (login_writes a) = (if atype a = JStr LOGIN_SUCCESS then 2 else 1) \<and>
      card {k. field s' k \<noteq> field (default_param login_initialState s) k}
        = length (filter (\<lambda>(k, v). v \<noteq> field (default_param login_initialState s) k)
                    (login_writes a))) \<and>
   (atype a \<in> set list_types \<longrightarrow>
      (\<forall>k. field (listReducer s a) k
             = written (list_writes a) (default_param list_initialState s) k) \<and>
      length (list_writes a) = 1 \<and>
      card {k. field (listReducer s a) k \<noteq> field (default_param list_initialState s) k}
        = length (filter (\<lambda>(k, v). v \<noteq> field (default_param list_initialState s) k)
                    (list_writes a))) \<and>
   (atype a \<in> set task_types \<longrightarrow>
      (\<forall>k. field (taskReducer s a) k
             = written (task_writes a) (default_param task_initialState s) k) \<and>
      length (task_writes a) = 1 \<and>
      card {k. field (taskReducer s a) k \<noteq> field (default_param task_initialState s) k}
        = length (filter (\<lambda>(k, v). v \<noteq> field (default_param task_initialState s) k)
                    (task_writes a))) \<and>
   ((\<exists>e. loginReducer s a = Inl e) =
      (atype a = JStr LOGIN_SUCCESS \<and> (payload a = JUndefined \<or> payload a = JNull)))"
proof -
  have login: "(\<forall>k. field s' k = written (login_writes a) (default_param login_initialState s) k) \<and>
      length (login_writes a) = (if atype a = JStr LOGIN_SUCCESS then 2 else 1) \<and>
      card {k. field s' k \<noteq> field (default_param login_initialState s) k}
        = length (filter (\<lambda>(k, v). v \<noteq> field (default_param login_initialState s) k)
                    (login_writes a))"
    if h: "atype a \<in> set login_types \<and> loginReducer s a = Inr s'"
  proof -
    from h have f: "field s' k = written (login_writes a) (default_param login_initialState s) k"
      for k by (simp add: login_fields)
    from h have l: "length (login_writes a) = (if atype a = JStr LOGIN_SUCCESS then 2 else 1)"
      by (simp add: writes_length)
    have c: "card {k. field s' k \<noteq> field (default_param login_initialState s) k}
        = length (filter (\<lambda>(k, v). v \<noteq> field (default_param login_initialState s) k)
                    (login_writes a))"
      using written_card_exact [OF writes_distinct(1), of a "default_param login_initialState s"]
      by (simp only: f)
    from f l c show ?thesis
      by blast
  qed
  have list: "(\<forall>k. field (listReducer s a) k
             = written (list_writes a) (default_param list_initialState s) k) \<and>
      length (list_writes a) = 1 \<and>
      card {k. field (listReducer s a) k \<noteq> field (default_param list_initialState s) k}
        = length (filter (\<lambda>(k, v). v \<noteq> field (default_param list_initialState s) k)
                    (list_writes a))"
    if h: "atype a \<in> set list_types"
  proof -
    from h have l: "length (list_writes a) = 1"
      by (simp add: writes_length)
    have c: "card {k. field (listReducer s a) k \<noteq> field (default_param list_initialState s) k}
        = length (filter (\<lambda>(k, v). v \<noteq> field (default_param list_initialState s) k)
                    (list_writes a))"
      using written_card_exact [OF writes_distinct(2), of a "default_param list_initialState s"]
      by (simp only: list_fields)
    from l c list_fields [of s a] show ?thesis
      by blast
  qed
  have task: "(\<forall>k. field (taskReducer s a) k
             = written (task_writes a) (default_param task_initialState s) k) \<and>
      length (task_writes a) = 1 \<and>
      card {k. field (taskReducer s a) k \<noteq> field (default_param task_initialState s) k}
        = length (filter (\<lambda>(k, v). v \<noteq> field (default_param task_initialState s) k)
                    (task_writes a))"
    if h: "atype a \<in> set task_types"
  proof -
    from h have l: "length (task_writes a) = 1"
      by (simp add: writes_length)
    have c: "card {k. field (taskReducer s a) k \<noteq> field (default_param task_initialState s) k}
        = length (filter (\<lambda>(k, v). v \<noteq> field (default_param task_initialState s) k)
                    (task_writes a))"
      using written_card_exact [OF writes_distinct(3), of a "default_param task_initialState s"]
      by (simp only: task_fields)
    from l c task_fields [of s a] show ?thesis
      by blast
  qed
  from login list task login_throws [of s a] show ?thesis
    by blast
qed

theorem recognized_action_frame_witness:
  "JStr LOGIN_SUCCESS \<in> set login_types \<and>
   loginReducer login_initialState
     \<lparr>atype = JStr LOGIN_SUCCESS,
      payload = JObj [(''username'', JStr ''alice''), (''accessId'', JStr ''tok-1'')]\<rparr>
     = Inr (JObj [(''accessId'', JStr ''tok-1''), (''username'', JStr ''alice'')]) \<and>
   field (JObj [(''accessId'', JStr ''tok-1''), (''username'', JStr ''alice'')]) ''username''
     = JStr ''alice'' \<and>
   card {k. field (JObj [(''accessId'', JStr ''tok-1''), (''username'', JStr ''alice'')]) k
              \<noteq> field (default_param login_initialState login_initialState) k} = 2 \<and>
   JStr SWITCH_SET_TASK_IS_DONE \<in> set task_types \<and>
   field (taskReducer JUndefined \<lparr>atype = JStr SWITCH_SET_TASK_IS_DONE, payload = JBool True\<rparr>)
      ''isDone'' = JBool True \<and>
   field (taskReducer JUndefined \<lparr>atype = JStr SWITCH_SET_TASK_IS_DONE, payload = JBool True\<rparr>)
      ''name'' = JStr '''' \<and>
   card {k. field (taskReducer JUndefined
                     \<lparr>atype = JStr SWITCH_SET_TASK_IS_DONE, payload = JBool True\<rparr>) k
              \<noteq> field (default_param task_initialState JUndefined) k} = 1"
proof -
  let ?a = "\<lparr>atype = JStr LOGIN_SUCCESS,
      payload = JObj [(''username'', JStr ''alice''), (''accessId'', JStr ''tok-1'')]\<rparr>"
  let ?s' = "JObj [(''accessId'', JStr ''tok-1''), (''username'', JStr ''alice'')]"
  let ?b = "\<lparr>atype = JStr SWITCH_SET_TASK_IS_DONE, payload = JBool True\<rparr>"
  have t: "JStr LOGIN_SUCCESS \<in> set login_types"
    by (simp add: login_types_def)
  have r: "loginReducer login_initialState ?a = Inr ?s'"
    by (simp add: loginReducer_def login_initialState_def default_param_def get_prop_def
        field_Cons field_Nil constants_defs)
  have u: "JStr SWITCH_SET_TASK_IS_DONE \<in> set task_types"
    by (simp add: task_types_def)
  have w: "written (login_writes ?a) (default_param login_initialState login_initialState)
             ''username'' = JStr ''alice''"
    "written (task_writes ?b) (default_param task_initialState JUndefined) ''isDone'' = JBool True"
    "written (task_writes ?b) (default_param task_initialState JUndefined) ''name'' = JStr ''''"
    by (simp_all add: written_def login_writes_def task_writes_def constants_defs field_Cons
        default_param_def task_initialState_def)
  have L: "atype ?a \<in> set login_types \<and> loginReducer login_initialState ?a = Inr ?s'"
    using t r by simp
  have U: "atype ?b \<in> set task_types"
    using u by simp
  note F = recognized_action_frame
    [of ?a login_initialState ?s', THEN conjunct1, THEN mp, OF L]
  note G = recognized_action_frame
    [of ?b JUndefined, THEN conjunct2, THEN conjunct2, THEN conjunct1, THEN mp, OF U]
  from F [THEN conjunct1] have 1: "field ?s' ''username''
        = written (login_writes ?a) (default_param login_initialState login_initialState)
            ''username''"
    by blast
  from F [THEN conjunct2, THEN conjunct2] have 2:
    "card {k. field ?s' k \<noteq> field (default_param login_initialState login_initialState) k}
        = 2"
    by (simp add: login_writes_def constants_defs default_param_def login_initialState_def
        field_Cons field_Nil)
  from G [THEN conjunct1] have 3: "field (taskReducer JUndefined ?b) ''isDone''
        = written (task_writes ?b) (default_param task_initialState JUndefined) ''isDone''"
    and 4: "field (taskReducer JUndefined ?b) ''name''
        = written (task_writes ?b) (default_param task_initialState JUndefined) ''name''"
    by blast+
  from G [THEN conjunct2, THEN conjunct2] have 5: "card {k. field (taskReducer JUndefined ?b) k
              \<noteq> field (default_param task_initialState JUndefined) k} = 1"
    by (simp add: task_writes_def constants_defs default_param_def task_initialState_def
        field_Cons field_Nil)
  from t r u w 1 2 3 4 5 show ?thesis
    by simp
qed


section \<open>A create request that the backend refuses\<close>

text \<open>
  Claim C3. With both create forms open and filled in, and a backend that answers the
  create request with status 500, \<open>createList\<close> reports the failure, reloads the lists,
  and then clears the name and description inputs of the list form and switches the form
  off; \<open>createTask\<close> does the same to the task form. The claim says that neither reset
  happens when the create request fails.
\<close>

theorem failed_create_resets_form:
  "field (field (store compose_world) ''lists'') ''name'' = JStr ''Groceries'' \<and>
   field (field (store compose_world) ''lists'') ''showAddList'' = JBool True \<and>
   toast (snd (createList App_test_rootReducer create_fails compose_world))
     = Some (''Create failed: Internal Server Error'', ''error'') \<and>
   map path (requests (snd (createList App_test_rootReducer create_fails compose_world)))
     = [''/list/create'', ''/list/list''] \<and>
   field (field (store (snd (createList App_test_rootReducer create_fails compose_world)))
            ''lists'') ''name'' = JStr '''' \<and>
   field (field (store (snd (createList App_test_rootReducer create_fails compose_world)))
            ''lists'') ''description'' = JStr '''' \<and>
   field (field (store (snd (createList App_test_rootReducer create_fails compose_world)))
            ''lists'') ''showAddList'' = JBool False \<and>
   field (field (store compose_world) ''tasks'') ''name'' = JStr ''Milk'' \<and>
   field (field (store compose_world) ''tasks'') ''showAddTaskForm'' = JBool True \<and>
   map path (requests (snd (createTask App_test_rootReducer create_fails compose_world)))
     = [''/task/create'', ''/task/list''] \<and>
   field (field (store (snd (createTask App_test_rootReducer create_fails compose_world)))
            ''tasks'') ''name'' = JStr '''' \<and>
   field (field (store (snd (createTask App_test_rootReducer create_fails compose_world)))
            ''tasks'') ''description'' = JStr '''' \<and>
   field (field (store (snd (createTask App_test_rootReducer create_fails compose_world)))
            ''tasks'') ''showAddTaskForm'' = JBool False"
proof -
  have w0: "requests compose_world = []" "store compose_world = compose_state"
    by (simp_all add: compose_world_def)
  have G: "field compose_state ''login''
             = JObj [(''accessId'', JStr ''tok-1''), (''username'', JStr ''alice'')]"
    and L: "field compose_state ''lists''
             = JObj [(''list'', JArr []), (''showAddList'', JBool True),
                     (''name'', JStr ''Groceries''), (''description'', JStr ''weekly'')]"
    and T: "field compose_state ''tasks''
             = JObj [(''tasks'', JArr []), (''showAddTaskForm'', JBool True),
                     (''name'', JStr ''Milk''), (''description'', JStr ''two litres''),
                     (''taskListName'', JStr ''Groceries''), (''taskListId'', JNum 7)]"
    by (simp_all add: compose_state_def field_Cons)
  have tok: "truthy (guarded (field (store compose_world) ''login'') ''accessId'')"
    by (simp add: w0 G guarded_def field_Cons)
  have lid: "truthy (guarded (field (store compose_world) ''tasks'') ''taskListId'')"
    by (simp add: w0 T guarded_def field_Cons)
  have ln: "guarded (field (store compose_world) ''lists'') ''name'' = JStr ''Groceries''"
    by (simp add: w0 L guarded_def field_Cons)
  have tn: "guarded (field (store compose_world) ''tasks'') ''name'' = JStr ''Milk''"
    by (simp add: w0 T guarded_def field_Cons)
  have nok: "\<not> ok \<lparr>ok = False, status = 500, resp_text = ''Internal Server Error'',
                     resp_json = Inl (Error ''SyntaxError'' ''Unexpected token I in JSON'')\<rparr>"
    by simp
  have msg: "text_or_status \<lparr>ok = False, status = 500, resp_text = ''Internal Server Error'',
                     resp_json = Inl (Error ''SyntaxError'' ''Unexpected token I in JSON'')\<rparr> = ''Internal Server Error''"
    by (simp add: text_or_status_def)
  have before:
    "field (field (store compose_world) ''lists'') ''name'' = JStr ''Groceries''"
    "field (field (store compose_world) ''lists'') ''showAddList'' = JBool True"
    "field (field (store compose_world) ''tasks'') ''name'' = JStr ''Milk''"
    "field (field (store compose_world) ''tasks'') ''showAddTaskForm'' = JBool True"
    by (simp_all add: w0 L T field_Cons)
  have lists:
    "toast (snd (createList App_test_rootReducer create_fails compose_world))
       = Some (''Create failed: Internal Server Error'', ''error'')"
    "map path (requests (snd (createList App_test_rootReducer create_fails compose_world)))
       = [''/list/create'', ''/list/list'']"
    "field (field (store (snd (createList App_test_rootReducer create_fails compose_world)))
            ''lists'') ''name'' = JStr ''''"
    "field (field (store (snd (createList App_test_rootReducer create_fails compose_world)))
            ''lists'') ''description'' = JStr ''''"
    "field (field (store (snd (createList App_test_rootReducer create_fails compose_world)))
            ''lists'') ''showAddList'' = JBool False"
    using createList_not_ok [OF tok ln trim_examples(1) _ nok, of create_fails]
    by (simp_all add: create_fails_def w0 L msg field_Cons default_param_simps)
  have tasks:
    "map path (requests (snd (createTask App_test_rootReducer create_fails compose_world)))
       = [''/task/create'', ''/task/list'']"
    "field (field (store (snd (createTask App_test_rootReducer create_fails compose_world)))
            ''tasks'') ''name'' = JStr ''''"
    "field (field (store (snd (createTask App_test_rootReducer create_fails compose_world)))
            ''tasks'') ''description'' = JStr ''''"
    "field (field (store (snd (createTask App_test_rootReducer create_fails compose_world)))
            ''tasks'') ''showAddTaskForm'' = JBool False"
    using createTask_not_ok [OF tok lid tn trim_examples(2) _ nok, of create_fails]
    by (simp_all add: create_fails_def w0 T msg field_Cons default_param_simps)
  from before lists tasks show ?thesis
    by simp
qed


section \<open>The action constructors of loginAction.js\<close>

text \<open>
  Claim C4. \<open>setAccessId\<close>, \<open>setUsername\<close>, \<open>setPassword\<close> and \<open>loginSuccess\<close> return
  a record with a \<open>type\<close> and a \<open>payload\<close>; \<open>loginFailed\<close> returns \<open>undefined\<close>, which
  has neither and which the store's dispatch refuses.
\<close>

theorem loginFailed_returns_no_record:
  "loginFailed = JUndefined \<and>
   get_prop loginFailed ''type''
     = Inl (Error ''TypeError'' ''Cannot read properties of undefined (reading type)'') \<and>
   dispatch r loginFailed s = Inl (Error ''Error'' ''Actions must be plain objects.'') \<and>
   field (setAccessId x) ''type'' = JStr SET_ACCESS_ID \<and> field (setAccessId x) ''payload'' = x \<and>
   field (setUsername x) ''type'' = JStr SET_USERNAME \<and> field (setUsername x) ''payload'' = x \<and>
   field (setPassword x) ''type'' = JStr SET_PASSWORD \<and> field (setPassword x) ''payload'' = x \<and>
   field (loginSuccess u x) ''type'' = JStr LOGIN_SUCCESS \<and>
   field (loginSuccess u x) ''payload'' = JObj [(''username'', u), (''accessId'', x)]"
  by (simp add: loginFailed_def get_prop_def dispatch_def setAccessId_def setUsername_def
      setPassword_def loginSuccess_def field_Cons)


section \<open>The coercion of the collection fields\<close>

text \<open>
  Claim C5. For every input state, \<open>SET_LISTS\<close> sets \<open>list\<close>, and \<open>SET_TASKS\<close> sets
  \<open>tasks\<close>, to the payload itself when the payload is a sequence and to the empty sequence
  when it is anything else. Hence in every state a slice reaches from the \<open>undefined\<close>
  state through any actions, the collection field is a sequence.
\<close>

theorem collection_field_is_sequence:
  "field (listReducer s \<lparr>atype = JStr SET_LISTS, payload = p\<rparr>) ''list''
     = (if isArray p then p else JArr []) \<and>
   field (taskReducer s \<lparr>atype = JStr SET_TASKS, payload = p\<rparr>) ''tasks''
     = (if isArray p then p else JArr []) \<and>
   isArray (field (foldl listReducer (listReducer JUndefined a) as) ''list'') \<and>
   isArray (field (foldl taskReducer (taskReducer JUndefined a) as) ''tasks'')"
  by (simp add: listReducer_SET_LISTS taskReducer_SET_TASKS field_update_same
      foldl_listReducer_sequence foldl_taskReducer_sequence
      listReducer_keeps_sequence taskReducer_keeps_sequence)

theorem collection_field_is_sequence_witness:
  "field (listReducer list_initialState \<lparr>atype = JStr SET_LISTS, payload = JNull\<rparr>) ''list''
     = JArr [] \<and>
   field (taskReducer task_initialState
            \<lparr>atype = JStr SET_TASKS, payload = JObj [(''id'', JNum 1)]\<rparr>) ''tasks''
     = JArr [] \<and>
   field (listReducer list_initialState \<lparr>atype = JStr SET_LISTS, payload = JStr ''abc''\<rparr>) ''list''
     = JArr [] \<and>
   field (taskReducer task_initialState
            \<lparr>atype = JStr SET_TASKS, payload = JArr [JNum 2, JNum 1]\<rparr>) ''tasks''
     = JArr [JNum 2, JNum 1]"
  using collection_field_is_sequence [where s = list_initialState and p = JNull]
    collection_field_is_sequence [where s = list_initialState and p = "JStr ''abc''"]
    collection_field_is_sequence [where s = task_initialState and p = "JObj [(''id'', JNum 1)]"]
    collection_field_is_sequence [where s = task_initialState and p = "JArr [JNum 2, JNum 1]"]
  by simp


section \<open>Reducers on unrecognized actions\<close>

text \<open>
  Claim C6. Each of the three slice reducers returns, without throwing, its input state
  on an action whose type it has no case for, and its default state when that input state
  is \<open>undefined\<close>.
\<close>

theorem reducers_identity_on_unrecognized:
  "(atype a \<notin> set login_types \<longrightarrow>
      loginReducer s a = Inr (if s = JUndefined then login_initialState else s)) \<and>
   (atype a \<notin> set list_types \<longrightarrow>
      listReducer s a = (if s = JUndefined then list_initialState else s)) \<and>
   (atype a \<notin> set task_types \<longrightarrow>
      taskReducer s a = (if s = JUndefined then task_initialState else s))"
  by (simp add: loginReducer_def listReducer_def taskReducer_def default_param_def
      login_types_def list_types_def task_types_def)

theorem reducers_identity_on_unrecognized_witness:
  "JStr ''UNKNOWN_ACTION'' \<notin> set login_types \<and>
   JStr ''UNKNOWN_ACTION'' \<notin> set list_types \<and>
   JStr ''UNKNOWN_ACTION'' \<notin> set task_types \<and>
   loginReducer JUndefined \<lparr>atype = JStr ''UNKNOWN_ACTION'', payload = JUndefined\<rparr>
     = Inr login_initialState \<and>
   listReducer JUndefined \<lparr>atype = JStr ''UNKNOWN_ACTION'', payload = JUndefined\<rparr>
     = list_initialState \<and>
   taskReducer JUndefined \<lparr>atype = JStr ''UNKNOWN_ACTION'', payload = JUndefined\<rparr>
     = task_initialState"
  using reducers_identity_on_unrecognized
    [of "\<lparr>atype = JStr ''UNKNOWN_ACTION'', payload = JUndefined\<rparr>" JUndefined]
  by (simp add: login_types_def list_types_def task_types_def constants_defs)


section \<open>The precondition checks of the create operations\<close>

text \<open>
  Claim C7. When the session token is missing or empty (any falsy value), \<open>createList\<close>
  issues no request, changes nothing in the store, and sets the error banner to
  "You must be logged in to create a list."; \<open>createTask\<close> does the same with its own
  message. With a token, a blank name (missing, empty or white space only) is refused
  in the same way by \<open>createList\<close>, and by \<open>createTask\<close> once a list is selected; a
  blank task name never reaches the network.
\<close>

theorem create_preconditions:
  "(\<not> truthy (guarded (field (store w) ''login'') ''accessId'') \<longrightarrow>
      createList r net w =
        (Inr (), w\<lparr>lastError := Some ''You must be logged in to create a list.''\<rparr>) \<and>
      requests (snd (createList r net w)) = requests w \<and>
      createTask r net w =
        (Inr (), w\<lparr>lastError := Some ''You must be logged in to create a task.''\<rparr>) \<and>
      requests (snd (createTask r net w)) = requests w) \<and>
   (truthy (guarded (field (store w) ''login'') ''accessId'') \<and>
    is_blank (guarded (field (store w) ''lists'') ''name'') \<longrightarrow>
      createList r net w = (Inr (), w\<lparr>lastError := Some ''List name is required.''\<rparr>) \<and>
      requests (snd (createList r net w)) = requests w) \<and>
   (truthy (guarded (field (store w) ''login'') ''accessId'') \<and>
    truthy (guarded (field (store w) ''tasks'') ''taskListId'') \<and>
    is_blank (guarded (field (store w) ''tasks'') ''name'') \<longrightarrow>
      createTask r net w = (Inr (), w\<lparr>lastError := Some ''Task name is required.''\<rparr>)) \<and>
   (is_blank (guarded (field (store w) ''tasks'') ''name'') \<longrightarrow>
      fst (createTask r net w) = Inr () \<and>
      requests (snd (createTask r net w)) = requests w \<and>
      store (snd (createTask r net w)) = store w \<and>
      lastError (snd (createTask r net w)) \<noteq> None)"
proof (intro conjI impI)
  assume h: "is_blank (guarded (field (store w) ''tasks'') ''name'')"
  consider (a) "\<not> truthy (guarded (field (store w) ''login'') ''accessId'')"
    | (b) "truthy (guarded (field (store w) ''login'') ''accessId'')"
          "\<not> truthy (guarded (field (store w) ''tasks'') ''taskListId'')"
    | (c) "truthy (guarded (field (store w) ''login'') ''accessId'')"
          "truthy (guarded (field (store w) ''tasks'') ''taskListId'')"
    by blast
  then have "fst (createTask r net w) = Inr () \<and>
      requests (snd (createTask r net w)) = requests w \<and>
      store (snd (createTask r net w)) = store w \<and>
      lastError (snd (createTask r net w)) \<noteq> None"
  proof cases
    case a
    then show ?thesis by (simp add: createTask_no_token)
  next
    case b
    then show ?thesis by (simp add: createTask_no_list)
  next
    case c
    with h show ?thesis by (simp add: createTask_blank_name)
  qed
  then show "fst (createTask r net w) = Inr ()"
    and "requests (snd (createTask r net w)) = requests w"
    and "store (snd (createTask r net w)) = store w"
    and "lastError (snd (createTask r net w)) \<noteq> None"
    by simp_all
qed (simp_all add: createList_no_token createTask_no_token createList_blank_name
      createTask_blank_name)


theorem create_preconditions_witness:
  "\<not> truthy (guarded (field (store logged_out_world) ''login'') ''accessId'') \<and>
   createList App_test_rootReducer create_fails logged_out_world =
     (Inr (), logged_out_world\<lparr>lastError := Some ''You must be logged in to create a list.''\<rparr>) \<and>
   requests (snd (createList App_test_rootReducer create_fails logged_out_world)) = [] \<and>
   createTask App_test_rootReducer create_fails logged_out_world =
     (Inr (), logged_out_world\<lparr>lastError := Some ''You must be logged in to create a task.''\<rparr>) \<and>
   truthy (guarded (field (store browse_world) ''login'') ''accessId'') \<and>
   is_blank (guarded (field (store browse_world) ''lists'') ''name'') \<and>
   createList App_test_rootReducer create_fails browse_world =
     (Inr (), browse_world\<lparr>lastError := Some ''List name is required.''\<rparr>) \<and>
   truthy (guarded (field (store browse_world) ''tasks'') ''taskListId'') \<and>
   is_blank (guarded (field (store browse_world) ''tasks'') ''name'') \<and>
   createTask App_test_rootReducer create_fails browse_world =
     (Inr (), browse_world\<lparr>lastError := Some ''Task name is required.''\<rparr>) \<and>
   requests (snd (createTask App_test_rootReducer create_fails browse_world)) = []"
proof -
  have o: "\<not> truthy (guarded (field (store logged_out_world) ''login'') ''accessId'')"
    "requests logged_out_world = []"
    by (simp_all add: logged_out_world_def guarded_def field_Cons)
  have b: "truthy (guarded (field (store browse_world) ''login'') ''accessId'')"
    "is_blank (guarded (field (store browse_world) ''lists'') ''name'')"
    "truthy (guarded (field (store browse_world) ''tasks'') ''taskListId'')"
    "is_blank (guarded (field (store browse_world) ''tasks'') ''name'')"
    "requests browse_world = []"
    by (simp_all add: browse_world_def browse_state_def guarded_def field_Cons is_blank_def
        trim_examples)
  from create_preconditions [of logged_out_world App_test_rootReducer create_fails]
    create_preconditions [of browse_world App_test_rootReducer create_fails] o b
  show ?thesis
    by simp
qed


section \<open>The reload after a delete\<close>

text \<open>
  Claim C8, as stated, fails: a delete request answered with a successful status and a
  body that is not JSON is followed by no load-lists request. Awaiting \<open>resp.json()\<close>
  throws, the catch sets the error banner, and the list slice stays as it was.
\<close>

theorem delete_without_reload_counterexample:
  "unparsed (length (requests browse_world))
     \<lparr>path = ''/list/delete'', body = [(''access_id'', JStr ''tok-1''), (''id'', JNum 1)]\<rparr>
     = Responded \<lparr>ok = True, status = 200, resp_text = ''OK'',
                   resp_json = Inl (Error ''SyntaxError'' ''Unexpected token O in JSON'')\<rparr> \<and>
   ok \<lparr>ok = True, status = 200, resp_text = ''OK'',
       resp_json = Inl (Error ''SyntaxError'' ''Unexpected token O in JSON'')\<rparr> \<and>
   requests (snd (deleteList App_test_rootReducer unparsed (JNum 1) browse_world)) =
     [\<lparr>path = ''/list/delete'', body = [(''access_id'', JStr ''tok-1''), (''id'', JNum 1)]\<rparr>] \<and>
   store (snd (deleteList App_test_rootReducer unparsed (JNum 1) browse_world))
     = store browse_world \<and>
   lastError (snd (deleteList App_test_rootReducer unparsed (JNum 1) browse_world))
     = Some ''Delete exception: Unexpected token O in JSON''"
proof -
  have t: "guarded (field (store browse_world) ''login'') ''accessId'' = JStr ''tok-1''"
    "requests browse_world = []"
    by (simp_all add: browse_world_def browse_state_def guarded_def field_Cons)
  have d: "unparsed (length (requests browse_world))
     \<lparr>path = ''/list/delete'',
      body = [(''access_id'', guarded (field (store browse_world) ''login'') ''accessId''),
              (''id'', JNum 1)]\<rparr>
     = Responded \<lparr>ok = True, status = 200, resp_text = ''OK'',
                   resp_json = Inl (Error ''SyntaxError'' ''Unexpected token O in JSON'')\<rparr>"
    by (simp add: unparsed_def)
  have o: "ok \<lparr>ok = True, status = 200, resp_text = ''OK'',
       resp_json = Inl (Error ''SyntaxError'' ''Unexpected token O in JSON'')\<rparr>"
    by simp
  have j: "resp_json \<lparr>ok = True, status = 200, resp_text = ''OK'',
       resp_json = Inl (Error ''SyntaxError'' ''Unexpected token O in JSON'')\<rparr>
       = Inl (Error ''SyntaxError'' ''Unexpected token O in JSON'')"
    by simp
  have "deleteList App_test_rootReducer unparsed (JNum 1) browse_world =
         (Inr (), browse_world\<lparr>requests := requests browse_world @
                       [\<lparr>path = ''/list/delete'',
                         body = [(''access_id'',
                                  guarded (field (store browse_world) ''login'') ''accessId''),
                                 (''id'', JNum 1)]\<rparr>],
                     lastError := Some (''Delete exception: '' @
                       err_text (Error ''SyntaxError'' ''Unexpected token O in JSON''))\<rparr>)"
    by (rule deleteList_unparsed [where net = unparsed and w = browse_world, OF d o j])
  with t d o show ?thesis
    by (simp add: err_text_def)
qed

text \<open>
  Claim C8, amended. When the delete request is answered with a successful status and
  a body that parses as JSON, \<open>deleteList\<close> returns having issued exactly two requests,
  the delete and then one load-lists request, and the \<open>list\<close> field of the list slice is
  then the sequence the load operation takes from the outcome of that load request: the
  body itself when the load is answered with a successful status and a sequence. When
  the body of the delete response does not parse, \<open>deleteList\<close> issues no further
  request, leaves the store as it is and sets the error banner to the delete exception.
\<close>

theorem delete_then_reload:
  assumes "net (length (requests w))
             \<lparr>path = ''/list/delete'',
              body = [(''access_id'', guarded (field (store w) ''login'') ''accessId''),
                      (''id'', id')]\<rparr>
           = Responded resp"
    and "ok resp"
  shows "(\<forall>ack. resp_json resp = Inr ack \<longrightarrow>
           fst (deleteList App_test_rootReducer net id' w) = Inr () \<and>
           requests (snd (deleteList App_test_rootReducer net id' w)) =
             requests w @
               [\<lparr>path = ''/list/delete'',
                 body = [(''access_id'', guarded (field (store w) ''login'') ''accessId''),
                         (''id'', id')]\<rparr>,
                \<lparr>path = ''/list/list'',
                 body = [(''access_id'', guarded (field (store w) ''login'') ''accessId'')]\<rparr>] \<and>
           field (field (store (snd (deleteList App_test_rootReducer net id' w))) ''lists'') ''list''
             = loaded (net (Suc (length (requests w)))
                 \<lparr>path = ''/list/list'',
                  body = [(''access_id'', guarded (field (store w) ''login'') ''accessId'')]\<rparr>) \<and>
           (\<forall>lresp xs.
              net (Suc (length (requests w)))
                 \<lparr>path = ''/list/list'',
                  body = [(''access_id'', guarded (field (store w) ''login'') ''accessId'')]\<rparr>
                = Responded lresp \<and> ok lresp \<and> resp_json lresp = Inr (JArr xs) \<longrightarrow>
              field (field (store (snd (deleteList App_test_rootReducer net id' w))) ''lists'')
                ''list'' = JArr xs)) \<and>
         (\<forall>e. resp_json resp = Inl e \<longrightarrow>
           deleteList App_test_rootReducer net id' w =
             (Inr (), w\<lparr>requests := requests w @
                         [\<lparr>path = ''/list/delete'',
                           body = [(''access_id'',
                                    guarded (field (store w) ''login'') ''accessId''),
                                   (''id'', id')]\<rparr>],
                       lastError := Some (''Delete exception: '' @ err_text e)\<rparr>))"
proof (intro conjI allI impI)
  fix e assume "resp_json resp = Inl e"
  with assms show "deleteList App_test_rootReducer net id' w =
             (Inr (), w\<lparr>requests := requests w @
                         [\<lparr>path = ''/list/delete'',
                           body = [(''access_id'',
                                    guarded (field (store w) ''login'') ''accessId''),
                                   (''id'', id')]\<rparr>],
                       lastError := Some (''Delete exception: '' @ err_text e)\<rparr>)"
    by (intro deleteList_unparsed [where net = net and w = w and resp = resp])
next
  fix ack assume j: "resp_json resp = Inr ack"
  let ?w1 = "w\<lparr>requests := requests w @
                 [\<lparr>path = ''/list/delete'',
                   body = [(''access_id'', guarded (field (store w) ''login'') ''accessId''),
                           (''id'', id')]\<rparr>],
               toast := Some (''List deleted'', ''success''), lastError := None\<rparr>"
  from assms j
  have run: "deleteList App_test_rootReducer net id' w = loadLists App_test_rootReducer net ?w1"
    by (intro deleteList_success [where net = net and w = w and resp = resp])
  show "fst (deleteList App_test_rootReducer net id' w) = Inr ()"
    unfolding run using loadLists_result [of net ?w1] by simp
  show "requests (snd (deleteList App_test_rootReducer net id' w)) =
             requests w @
               [\<lparr>path = ''/list/delete'',
                 body = [(''access_id'', guarded (field (store w) ''login'') ''accessId''),
                         (''id'', id')]\<rparr>,
                \<lparr>path = ''/list/list'',
                 body = [(''access_id'', guarded (field (store w) ''login'') ''accessId'')]\<rparr>]"
    unfolding run using loadLists_result [of net ?w1] by simp
  show l: "field (field (store (snd (deleteList App_test_rootReducer net id' w))) ''lists'') ''list''
             = loaded (net (Suc (length (requests w)))
                 \<lparr>path = ''/list/list'',
                  body = [(''access_id'', guarded (field (store w) ''login'') ''accessId'')]\<rparr>)"
    unfolding run using loadLists_result [of net ?w1]
    by (simp add: field_Cons field_update_same)
  fix lresp xs
  assume "net (Suc (length (requests w)))
                 \<lparr>path = ''/list/list'',
                  body = [(''access_id'', guarded (field (store w) ''login'') ''accessId'')]\<rparr>
                = Responded lresp \<and> ok lresp \<and> resp_json lresp = Inr (JArr xs)"
  with l show "field (field (store (snd (deleteList App_test_rootReducer net id' w))) ''lists'')
                ''list'' = JArr xs"
    by (simp add: loaded_def)
qed


theorem delete_then_reload_witness:
  "delete_succeeds (length (requests browse_world))
     \<lparr>path = ''/list/delete'', body = [(''access_id'', JStr ''tok-1''), (''id'', JNum 1)]\<rparr>
     = Responded \<lparr>ok = True, status = 200, resp_text = ''{}'', resp_json = Inr (JObj [])\<rparr> \<and>
   ok \<lparr>ok = True, status = 200, resp_text = ''{}'', resp_json = Inr (JObj [])\<rparr> \<and>
   fst (deleteList App_test_rootReducer delete_succeeds (JNum 1) browse_world) = Inr () \<and>
   requests (snd (deleteList App_test_rootReducer delete_succeeds (JNum 1) browse_world)) =
     [\<lparr>path = ''/list/delete'', body = [(''access_id'', JStr ''tok-1''), (''id'', JNum 1)]\<rparr>,
      \<lparr>path = ''/list/list'', body = [(''access_id'', JStr ''tok-1'')]\<rparr>] \<and>
   field (field (store (snd (deleteList App_test_rootReducer delete_succeeds (JNum 1) browse_world)))
      ''lists'') ''list''
     = JArr [JObj [(''id'', JNum 2), (''name'', JStr ''Chores''),
                   (''description'', JStr ''''), (''is_done'', JBool False)]]"
proof -
  let ?resp = "\<lparr>ok = True, status = 200, resp_text = ''{}'', resp_json = Inr (JObj [])\<rparr>"
  have t: "guarded (field (store browse_world) ''login'') ''accessId'' = JStr ''tok-1''"
    "requests browse_world = []"
    by (simp_all add: browse_world_def browse_state_def guarded_def field_Cons)
  have d: "delete_succeeds (length (requests browse_world))
     \<lparr>path = ''/list/delete'',
      body = [(''access_id'', guarded (field (store browse_world) ''login'') ''accessId''),
              (''id'', JNum 1)]\<rparr> = Responded ?resp"
    by (simp add: delete_succeeds_def)
  have o: "ok ?resp"
    by simp
  have j: "resp_json ?resp = Inr (JObj [])"
    by simp
  note R = delete_then_reload
    [where net = delete_succeeds and w = browse_world and id' = "JNum 1" and resp = ?resp,
     OF d o, THEN conjunct1, THEN spec, THEN mp, OF j]
  from R t d o show ?thesis
    by (simp add: loaded_def delete_succeeds_def)
qed


section \<open>A load answered with something else than a sequence\<close>

text \<open>
  Claim C9, as stated, fails: a load-lists request answered with a successful status and
  a body that is not JSON (and so not a sequence) sets the \<open>list\<close> field to the empty
  sequence, but awaiting \<open>resp.json()\<close> throws and the catch replaces the error banner
  with the load exception: an error is reported.
\<close>

theorem unparsed_load_reports_counterexample:
  "unparsed (length (requests browse_world))
     \<lparr>path = ''/list/list'', body = [(''access_id'', JStr ''tok-1'')]\<rparr>
     = Responded \<lparr>ok = True, status = 200, resp_text = ''OK'',
                   resp_json = Inl (Error ''SyntaxError'' ''Unexpected token O in JSON'')\<rparr> \<and>
   ok \<lparr>ok = True, status = 200, resp_text = ''OK'',
       resp_json = Inl (Error ''SyntaxError'' ''Unexpected token O in JSON'')\<rparr> \<and>
   lastError browse_world = Some ''an earlier error'' \<and>
   lastError (snd (loadLists App_test_rootReducer unparsed browse_world))
     = Some ''Load lists exception: Unexpected token O in JSON'' \<and>
   field (field (store (snd (loadLists App_test_rootReducer unparsed browse_world)))
      ''lists'') ''list'' = JArr []"
proof -
  have t: "guarded (field (store browse_world) ''login'') ''accessId'' = JStr ''tok-1''"
    "requests browse_world = []" "lastError browse_world = Some ''an earlier error''"
    by (simp_all add: browse_world_def browse_state_def guarded_def field_Cons)
  have d: "unparsed (length (requests browse_world))
     \<lparr>path = ''/list/list'',
      body = [(''access_id'', guarded (field (store browse_world) ''login'') ''accessId'')]\<rparr>
     = Responded \<lparr>ok = True, status = 200, resp_text = ''OK'',
                   resp_json = Inl (Error ''SyntaxError'' ''Unexpected token O in JSON'')\<rparr>"
    by (simp add: unparsed_def)
  have o: "ok \<lparr>ok = True, status = 200, resp_text = ''OK'',
       resp_json = Inl (Error ''SyntaxError'' ''Unexpected token O in JSON'')\<rparr>"
    by simp
  have j: "resp_json \<lparr>ok = True, status = 200, resp_text = ''OK'',
       resp_json = Inl (Error ''SyntaxError'' ''Unexpected token O in JSON'')\<rparr>
       = Inl (Error ''SyntaxError'' ''Unexpected token O in JSON'')"
    by simp
  have "loadLists App_test_rootReducer unparsed browse_world =
         (Inr (), browse_world\<lparr>requests := requests browse_world @
                       [\<lparr>path = ''/list/list'',
                         body = [(''access_id'',
                                  guarded (field (store browse_world) ''login'') ''accessId'')]\<rparr>],
                     lastError := Some (''Load lists exception: '' @
                       err_text (Error ''SyntaxError'' ''Unexpected token O in JSON'')),
                     store := JObj
     [(''login'', default_param login_initialState (field (store browse_world) ''login'')),
      (''lists'', JObj (AList.update ''list'' (JArr [])
          (spread (default_param list_initialState (field (store browse_world) ''lists''))))),
      (''tasks'', default_param task_initialState (field (store browse_world) ''tasks''))]\<rparr>)"
    by (rule loadLists_unparsed [where net = unparsed and w = browse_world, OF d o j])
  with t d o show ?thesis
    by (simp add: err_text_def field_Cons field_update_same)
qed

text \<open>
  Claim C9, amended. When the load-lists request is answered with a successful status
  and a body that parses as JSON to a value that is not a sequence, \<open>loadLists\<close> returns
  with the \<open>list\<close> field of the list slice set to the empty sequence, and with the error
  banner and the toast as they were; \<open>loadTasks\<close> does the same to the \<open>tasks\<close> field of
  the task slice. When the body does not parse as JSON, the field is set to the empty
  sequence as well, the toast is as it was, and the error banner is set to the load
  exception.
\<close>

theorem malformed_load_is_empty:
  "(net (length (requests w))
      \<lparr>path = ''/list/list'',
       body = [(''access_id'', guarded (field (store w) ''login'') ''accessId'')]\<rparr>
     = Responded resp \<and> ok resp \<longrightarrow>
    (\<forall>b. resp_json resp = Inr b \<and> \<not> isArray b \<longrightarrow>
       fst (loadLists App_test_rootReducer net w) = Inr () \<and>
       field (field (store (snd (loadLists App_test_rootReducer net w))) ''lists'') ''list''
         = JArr [] \<and>
       lastError (snd (loadLists App_test_rootReducer net w)) = lastError w \<and>
       toast (snd (loadLists App_test_rootReducer net w)) = toast w) \<and>
    (\<forall>e. resp_json resp = Inl e \<longrightarrow>
       fst (loadLists App_test_rootReducer net w) = Inr () \<and>
       field (field (store (snd (loadLists App_test_rootReducer net w))) ''lists'') ''list''
         = JArr [] \<and>
       lastError (snd (loadLists App_test_rootReducer net w))
         = Some (''Load lists exception: '' @ err_text e) \<and>
       toast (snd (loadLists App_test_rootReducer net w)) = toast w)) \<and>
   (net (length (requests w))
      \<lparr>path = ''/task/list'',
       body = [(''access_id'', guarded (field (store w) ''login'') ''accessId''),
               (''list_id'', id')]\<rparr>
     = Responded resp \<and> ok resp \<longrightarrow>
    (\<forall>b. resp_json resp = Inr b \<and> \<not> isArray b \<longrightarrow>
       fst (loadTasks App_test_rootReducer net id' w) = Inr () \<and>
       field (field (store (snd (loadTasks App_test_rootReducer net id' w))) ''tasks'') ''tasks''
         = JArr [] \<and>
       lastError (snd (loadTasks App_test_rootReducer net id' w)) = lastError w \<and>
       toast (snd (loadTasks App_test_rootReducer net id' w)) = toast w) \<and>
    (\<forall>e. resp_json resp = Inl e \<longrightarrow>
       fst (loadTasks App_test_rootReducer net id' w) = Inr () \<and>
       field (field (store (snd (loadTasks App_test_rootReducer net id' w))) ''tasks'') ''tasks''
         = JArr [] \<and>
       lastError (snd (loadTasks App_test_rootReducer net id' w))
         = Some (''Load tasks exception: '' @ err_text e) \<and>
       toast (snd (loadTasks App_test_rootReducer net id' w)) = toast w))"
proof -
  have lists_parsed:
    "fst (loadLists App_test_rootReducer net w) = Inr () \<and>
       field (field (store (snd (loadLists App_test_rootReducer net w))) ''lists'') ''list''
         = JArr [] \<and>
       lastError (snd (loadLists App_test_rootReducer net w)) = lastError w \<and>
       toast (snd (loadLists App_test_rootReducer net w)) = toast w"
    if n: "net (length (requests w))
      \<lparr>path = ''/list/list'',
       body = [(''access_id'', guarded (field (store w) ''login'') ''accessId'')]\<rparr>
     = Responded resp" and o: "ok resp" and j: "resp_json resp = Inr b" and na: "\<not> isArray b"
    for b
    using na by (simp add: loadLists_success [where net = net and w = w, OF n o j] field_Cons field_update_same)
  have lists_unparsed:
    "fst (loadLists App_test_rootReducer net w) = Inr () \<and>
       field (field (store (snd (loadLists App_test_rootReducer net w))) ''lists'') ''list''
         = JArr [] \<and>
       lastError (snd (loadLists App_test_rootReducer net w))
         = Some (''Load lists exception: '' @ err_text e) \<and>
       toast (snd (loadLists App_test_rootReducer net w)) = toast w"
    if n: "net (length (requests w))
      \<lparr>path = ''/list/list'',
       body = [(''access_id'', guarded (field (store w) ''login'') ''accessId'')]\<rparr>
     = Responded resp" and o: "ok resp" and j: "resp_json resp = Inl e"
    for e
    by (simp add: loadLists_unparsed [where net = net and w = w, OF n o j] field_Cons field_update_same)
  have tasks_parsed:
    "fst (loadTasks App_test_rootReducer net id' w) = Inr () \<and>
       field (field (store (snd (loadTasks App_test_rootReducer net id' w))) ''tasks'') ''tasks''
         = JArr [] \<and>
       lastError (snd (loadTasks App_test_rootReducer net id' w)) = lastError w \<and>
       toast (snd (loadTasks App_test_rootReducer net id' w)) = toast w"
    if n: "net (length (requests w))
      \<lparr>path = ''/task/list'',
       body = [(''access_id'', guarded (field (store w) ''login'') ''accessId''),
               (''list_id'', id')]\<rparr>
     = Responded resp" and o: "ok resp" and j: "resp_json resp = Inr b" and na: "\<not> isArray b"
    for b
    using na by (simp add: loadTasks_success [where net = net and w = w, OF n o j] field_Cons field_update_same)
  have tasks_unparsed:
    "fst (loadTasks App_test_rootReducer net id' w) = Inr () \<and>
       field (field (store (snd (loadTasks App_test_rootReducer net id' w))) ''tasks'') ''tasks''
         = JArr [] \<and>
       lastError (snd (loadTasks App_test_rootReducer net id' w))
         = Some (''Load tasks exception: '' @ err_text e) \<and>
       toast (snd (loadTasks App_test_rootReducer net id' w)) = toast w"
    if n: "net (length (requests w))
      \<lparr>path = ''/task/list'',
       body = [(''access_id'', guarded (field (store w) ''login'') ''accessId''),
               (''list_id'', id')]\<rparr>
     = Responded resp" and o: "ok resp" and j: "resp_json resp = Inl e"
    for e
    by (simp add: loadTasks_unparsed [where net = net and w = w, OF n o j] field_Cons field_update_same)
  from lists_parsed lists_unparsed tasks_parsed tasks_unparsed show ?thesis
    by blast
qed


theorem malformed_load_is_empty_witness:
  "load_malformed (length (requests browse_world))
     \<lparr>path = ''/list/list'', body = [(''access_id'', JStr ''tok-1'')]\<rparr>
     = Responded \<lparr>ok = True, status = 200, resp_text = '''',
                   resp_json = Inr (JObj [(''detail'', JStr ''none'')])\<rparr> \<and>
   \<not> isArray (JObj [(''detail'', JStr ''none'')]) \<and>
   field (field (store browse_world) ''lists'') ''list''
     = JArr [JObj [(''id'', JNum 1)], JObj [(''id'', JNum 2)]] \<and>
   fst (loadLists App_test_rootReducer load_malformed browse_world) = Inr () \<and>
   field (field (store (snd (loadLists App_test_rootReducer load_malformed browse_world)))
      ''lists'') ''list'' = JArr [] \<and>
   lastError (snd (loadLists App_test_rootReducer load_malformed browse_world))
     = Some ''an earlier error'' \<and>
   toast (snd (loadLists App_test_rootReducer load_malformed browse_world)) = None \<and>
   fst (loadTasks App_test_rootReducer load_malformed (JNum 2) browse_world) = Inr () \<and>
   field (field (store (snd (loadTasks App_test_rootReducer load_malformed (JNum 2) browse_world)))
      ''tasks'') ''tasks'' = JArr [] \<and>
   lastError (snd (loadTasks App_test_rootReducer load_malformed (JNum 2) browse_world))
     = Some ''an earlier error''"
proof -
  let ?resp = "\<lparr>ok = True, status = 200, resp_text = '''',
                 resp_json = Inr (JObj [(''detail'', JStr ''none'')])\<rparr>"
  have t: "guarded (field (store browse_world) ''login'') ''accessId'' = JStr ''tok-1''"
    "requests browse_world = []" "lastError browse_world = Some ''an earlier error''"
    "toast browse_world = None"
    "field (field (store browse_world) ''lists'') ''list''
       = JArr [JObj [(''id'', JNum 1)], JObj [(''id'', JNum 2)]]"
    by (simp_all add: browse_world_def browse_state_def guarded_def field_Cons)
  have nl: "load_malformed (length (requests browse_world))
      \<lparr>path = ''/list/list'',
       body = [(''access_id'', guarded (field (store browse_world) ''login'') ''accessId'')]\<rparr>
     = Responded ?resp \<and> ok ?resp"
    and nt: "load_malformed (length (requests browse_world))
      \<lparr>path = ''/task/list'',
       body = [(''access_id'', guarded (field (store browse_world) ''login'') ''accessId''),
               (''list_id'', JNum 2)]\<rparr>
     = Responded ?resp \<and> ok ?resp"
    by (simp_all add: load_malformed_def)
  have j: "resp_json ?resp = Inr (JObj [(''detail'', JStr ''none'')]) \<and>
           \<not> isArray (JObj [(''detail'', JStr ''none'')])"
    by simp
  note A = malformed_load_is_empty
    [of load_malformed browse_world ?resp "JNum 2",
     THEN conjunct1, THEN mp, OF nl, THEN conjunct1, THEN spec, THEN mp, OF j]
  note B = malformed_load_is_empty
    [of load_malformed browse_world ?resp "JNum 2",
     THEN conjunct2, THEN mp, OF nt, THEN conjunct1, THEN spec, THEN mp, OF j]
  from A B t nl show ?thesis
    by simp
qed


section \<open>The routing gate\<close>

text \<open>
  Claim C10. On every state tree whose login slice is neither \<open>undefined\<close> nor
  \<open>null\<close> (where reading \<open>accessId\<close> throws), the application renders the login view
  when \<open>login.accessId\<close> is \<open>undefined\<close> and the routed views when it is any other
  value: also when it is \<open>null\<close> or the empty string.
\<close>

theorem routing_gate:
  assumes "field state ''login'' \<noteq> JUndefined" and "field state ''login'' \<noteq> JNull"
  shows "App_render (mapStateToProps state) =
           Inr (if field (field state ''login'') ''accessId'' = JUndefined
                then LoginView else RoutedViews)"
  using assms by (simp add: App_render_def mapStateToProps_def get_prop_def field_spread)

theorem routing_gate_witness:
  "App_render (mapStateToProps (JObj [(''login'', JObj [(''accessId'', JNull)])]))
     = Inr RoutedViews \<and>
   App_render (mapStateToProps (JObj [(''login'', JObj [(''accessId'', JStr '''')])]))
     = Inr RoutedViews \<and>
   App_render (mapStateToProps (JObj [(''login'', JObj [(''accessId'', JUndefined)])]))
     = Inr LoginView"
  using routing_gate [of "JObj [(''login'', JObj [(''accessId'', JNull)])]"]
    routing_gate [of "JObj [(''login'', JObj [(''accessId'', JStr '''')])]"]
    routing_gate [of "JObj [(''login'', JObj [(''accessId'', JUndefined)])]"]
  by (simp add: field_Cons)


end
